theory Spec2Isabelle
  imports Complex_Main "HOL-Library.Log_Nat"
begin

section \<open>Python numbers\<close>

text \<open>
  The counters of a car are Python \<open>int\<close>s (unbounded), modelled as \<open>int\<close>.
  A Python \<open>float\<close> is an IEEE 754 binary64 number. Every finite binary64 number is a
  rational, so a float is modelled by its exact value, a \<open>rat\<close>; the operations the
  handlers use (\<open>int / int\<close>, \<open>float * int\<close>, \<open>round(x, 1)\<close>) compute the exact
  result and round it to the nearest number with a 53-bit significand, ties to even.
  The exponent is not bounded: the model is exact wherever the results lie in the normal
  range of binary64 (magnitudes from \<open>2^-1022\<close> up to \<open>2^1024\<close>), which covers every
  quotient of 64-bit counters. The values \<open>0\<close> and \<open>0.0\<close> compare equal in Python and
  are both the rational \<open>0\<close>.
\<close>

type_synonym pyfloat = rat

definition pow2 :: "int \<Rightarrow> rat" where
  "pow2 e = (if 0 \<le> e then 2 ^ nat e else 1 / 2 ^ nat (- e))"

text \<open>Rounding a rational to the nearest integer, ties to the even neighbour.\<close>

definition round_half_even :: "rat \<Rightarrow> int" where
  "round_half_even q =
     (let f = \<lfloor>q\<rfloor>; r = q - of_int f
      in if r < 1 / 2 then f else if 1 / 2 < r then f + 1 else if even f then f else f + 1)"

text \<open>The binary exponent \<open>\<lfloor>log\<^sub>2 \<bar>q\<bar>\<rfloor>\<close> of a non-zero rational.\<close>

definition ilog2 :: "rat \<Rightarrow> int" where
  "ilog2 q = (if 1 \<le> \<bar>q\<bar> then bitlen \<lfloor>\<bar>q\<bar>\<rfloor> - 1 else - bitlen (\<lceil>1 / \<bar>q\<bar>\<rceil> - 1))"

text \<open>Rounding to binary64: the significand \<open>q / 2^e\<close> is scaled into \<open>[2^52, 2^53)\<close>.\<close>

definition fl :: "rat \<Rightarrow> pyfloat" where
  "fl q = (if q = 0 then 0
           else let e = ilog2 q - 52 in of_int (round_half_even (q / pow2 e)) * pow2 e)"

text \<open>\<open>a / b\<close> on two ints: the correctly rounded quotient (the callers guard \<open>b > 0\<close>).\<close>

definition py_truediv :: "int \<Rightarrow> int \<Rightarrow> pyfloat" where
  "py_truediv a b = fl (of_int a / of_int b)"

text \<open>\<open>x * n\<close> on a float and an int: the int converts exactly, the product is rounded.\<close>

definition py_mul :: "pyfloat \<Rightarrow> int \<Rightarrow> pyfloat" where
  "py_mul x n = fl (x * of_int n)"

text \<open>
  \<open>round(x, 1)\<close>: the exact value of \<open>x\<close> is rounded to one decimal, ties to even, and
  the decimal is converted back to the nearest float.
\<close>

definition py_round1 :: "pyfloat \<Rightarrow> pyfloat" where
  "py_round1 x = fl (of_int (round_half_even (x * 10)) / 10)"

section \<open>Data model\<close>

type_synonym datetime = int

text \<open>
  The fields \<open>id\<close> and \<open>make\<close> of the source are \<open>car_id\<close> and \<open>car_make\<close> here;
  the fields of the request and response models carry a prefix.
\<close>

record Car =
  car_id :: string
  car_make :: string
  model :: string
  year :: int
  image_url :: string
  hot_votes :: int
  not_votes :: int
  total_votes :: int
  hot_percentage :: pyfloat
  created_at :: datetime

record CarCreate =
  cc_make :: string
  cc_model :: string
  cc_year :: int
  cc_image_url :: string

record CarResponse =
  cr_id :: string
  cr_make :: string
  cr_model :: string
  cr_year :: int
  cr_image_url :: string
  cr_hot_votes :: int
  cr_not_votes :: int
  cr_total_votes :: int
  cr_hot_percentage :: pyfloat

record VoteRequest =
  vr_car_id :: string
  vote_type :: string

record VoteResponse =
  vs_success :: bool
  vs_car :: CarResponse
  vs_message :: string

text \<open>
  Exceptions: the framework's \<open>HTTPException(status_code, detail)\<close>, and any other
  \<open>Exception\<close>, carried with its \<open>str()\<close>.
\<close>

datatype exn = HTTPException nat string | PyException string

section \<open>The document store\<close>

text \<open>
  The collection \<open>db.cars\<close> is the list of its documents in insertion order. Every call
  of the driver is appended to \<open>log\<close>, and \<open>faults\<close> schedules the driver's own
  failures: its head decides the next call, \<open>Some m\<close> making that call raise an exception
  with message \<open>m\<close> and leave the collection as it is; an empty schedule means no failure.
\<close>

datatype store_op =
  FindOne string | UpdateOne string | InsertOne | InsertMany | CountDocuments | Aggregate

record store =
  cars :: "Car list"
  faults :: "string option list"
  log :: "store_op list"

definition driver_call :: "store_op \<Rightarrow> store \<Rightarrow> string option \<times> store" where
  "driver_call op s =
     (case faults s of
        [] \<Rightarrow> (None, s\<lparr>log := log s @ [op]\<rparr>)
      | f # fs \<Rightarrow> (f, s\<lparr>faults := fs, log := log s @ [op]\<rparr>))"

text \<open>\<open>find_one({"id": car_id})\<close>: the first document with that id, or \<open>None\<close>.\<close>

definition find_one :: "string \<Rightarrow> store \<Rightarrow> (exn + Car option) \<times> store" where
  "find_one cid s =
     (case driver_call (FindOne cid) s of
        (Some m, s') \<Rightarrow> (Inl (PyException m), s')
      | (None, s') \<Rightarrow> (Inr (find (\<lambda>c. car_id c = cid) (cars s')), s'))"

fun update_first :: "('a \<Rightarrow> bool) \<Rightarrow> ('a \<Rightarrow> 'a) \<Rightarrow> 'a list \<Rightarrow> 'a list" where
  "update_first P f [] = []"
| "update_first P f (x # xs) = (if P x then f x # xs else x # update_first P f xs)"

text \<open>
  \<open>update_one({"id": car_id}, {"$set": {...}})\<close>: the first document with that id gets
  the fields set; with no such document nothing changes.
\<close>

definition update_one :: "string \<Rightarrow> (Car \<Rightarrow> Car) \<Rightarrow> store \<Rightarrow> (exn + unit) \<times> store" where
  "update_one cid set_fields s =
     (case driver_call (UpdateOne cid) s of
        (Some m, s') \<Rightarrow> (Inl (PyException m), s')
      | (None, s') \<Rightarrow>
          (Inr (), s'\<lparr>cars := update_first (\<lambda>c. car_id c = cid) set_fields (cars s')\<rparr>))"

definition insert_one :: "Car \<Rightarrow> store \<Rightarrow> (exn + unit) \<times> store" where
  "insert_one doc s =
     (case driver_call InsertOne s of
        (Some m, s') \<Rightarrow> (Inl (PyException m), s')
      | (None, s') \<Rightarrow> (Inr (), s'\<lparr>cars := cars s' @ [doc]\<rparr>))"

text \<open>\<open>insert_many(docs)\<close> returns the inserted ids; the model returns how many there are.\<close>

definition insert_many :: "Car list \<Rightarrow> store \<Rightarrow> (exn + nat) \<times> store" where
  "insert_many docs s =
     (case driver_call InsertMany s of
        (Some m, s') \<Rightarrow> (Inl (PyException m), s')
      | (None, s') \<Rightarrow> (Inr (length docs), s'\<lparr>cars := cars s' @ docs\<rparr>))"

definition count_documents :: "store \<Rightarrow> (exn + nat) \<times> store" where
  "count_documents s =
     (case driver_call CountDocuments s of
        (Some m, s') \<Rightarrow> (Inl (PyException m), s')
      | (None, s') \<Rightarrow> (Inr (length (cars s')), s'))"

text \<open>
  \<open>aggregate([{"$sample": {"size": 1}}]).to_list(1)\<close>: no document of an empty
  collection, otherwise one document, chosen by the random draw \<open>r\<close>.
\<close>

definition aggregate_sample :: "nat \<Rightarrow> store \<Rightarrow> (exn + Car list) \<times> store" where
  "aggregate_sample r s =
     (case driver_call Aggregate s of
        (Some m, s') \<Rightarrow> (Inl (PyException m), s')
      | (None, s') \<Rightarrow>
          (Inr (if cars s' = [] then [] else [cars s' ! (r mod length (cars s'))]), s'))"

section \<open>Car rating routes\<close>

definition apostrophe :: string where
  "apostrophe = [CHR 0x27]"

text \<open>The view of a stored document that the routes return.\<close>

definition car_response :: "Car \<Rightarrow> int \<Rightarrow> int \<Rightarrow> int \<Rightarrow> pyfloat \<Rightarrow> CarResponse" where
  "car_response car h n t p =
     \<lparr>cr_id = car_id car, cr_make = car_make car, cr_model = model car, cr_year = year car,
      cr_image_url = image_url car, cr_hot_votes = h, cr_not_votes = n,
      cr_total_votes = t, cr_hot_percentage = p\<rparr>"

text \<open>
  \<open>get_random_car\<close>. The body of the \<open>try\<close> comes first; the handler wraps it with
  \<open>except Exception\<close>, which catches the body's own \<open>HTTPException\<close> as well.
\<close>

definition get_random_car_try :: "nat \<Rightarrow> store \<Rightarrow> (exn + CarResponse) \<times> store" where
  "get_random_car_try r s =
     (case aggregate_sample r s of
        (Inl e, s') \<Rightarrow> (Inl e, s')
      | (Inr found, s') \<Rightarrow>
          (case found of
             [] \<Rightarrow> (Inl (HTTPException 404 ''No cars found in database''), s')
           | car # _ \<Rightarrow>
               (Inr (car_response car (hot_votes car) (not_votes car) (total_votes car)
                       (hot_percentage car)), s')))"

definition get_random_car :: "nat \<Rightarrow> store \<Rightarrow> (exn + CarResponse) \<times> store" where
  "get_random_car r s =
     (case get_random_car_try r s of
        (Inl e, s') \<Rightarrow> (Inl (HTTPException 500 ''Failed to get random car''), s')
      | (Inr resp, s') \<Rightarrow> (Inr resp, s'))"

text \<open>
  \<open>vote_for_car\<close>. \<open>float_str\<close> is Python's rendering of a float inside the f-string
  of the message. When the total is not positive the percentage is the int \<open>0\<close>, and
  \<open>round(0, 1)\<close> is \<open>0\<close>.
\<close>

definition vote_for_car_try ::
  "(pyfloat \<Rightarrow> string) \<Rightarrow> string \<Rightarrow> VoteRequest \<Rightarrow> store \<Rightarrow> (exn + VoteResponse) \<times> store" where
  "vote_for_car_try float_str cid vote_request s =
     (if vote_type vote_request \<notin> set [''hot'', ''not'']
      then (Inl (HTTPException 400
              (''Vote type must be '' @ apostrophe @ ''hot'' @ apostrophe @ '' or ''
                 @ apostrophe @ ''not'' @ apostrophe)), s)
      else
        (case find_one cid s of
           (Inl e, s1) \<Rightarrow> (Inl e, s1)
         | (Inr None, s1) \<Rightarrow> (Inl (HTTPException 404 ''Car not found''), s1)
         | (Inr (Some car), s1) \<Rightarrow>
             (let new_hot_votes =
                    (if vote_type vote_request = ''hot'' then hot_votes car + 1 else hot_votes car);
                  new_not_votes =
                    (if vote_type vote_request = ''hot'' then not_votes car else not_votes car + 1);
                  new_total_votes = new_hot_votes + new_not_votes;
                  rounded =
                    (if new_total_votes > 0
                     then py_round1 (py_mul (py_truediv new_hot_votes new_total_votes) 100)
                     else 0)
              in case update_one cid
                        (\<lambda>c. c\<lparr>hot_votes := new_hot_votes, not_votes := new_not_votes,
                                total_votes := new_total_votes, hot_percentage := rounded\<rparr>) s1 of
                   (Inl e, s2) \<Rightarrow> (Inl e, s2)
                 | (Inr _, s2) \<Rightarrow>
                     (Inr \<lparr>vs_success = True,
                           vs_car = car_response car new_hot_votes new_not_votes new_total_votes rounded,
                           vs_message = ''Vote recorded! This car is '' @ float_str rounded @ ''% hot.''\<rparr>,
                      s2))))"

definition vote_for_car ::
  "(pyfloat \<Rightarrow> string) \<Rightarrow> string \<Rightarrow> VoteRequest \<Rightarrow> store \<Rightarrow> (exn + VoteResponse) \<times> store" where
  "vote_for_car float_str cid vote_request s =
     (case vote_for_car_try float_str cid vote_request s of
        (Inl (HTTPException code detail), s') \<Rightarrow> (Inl (HTTPException code detail), s')
      | (Inl (PyException m), s') \<Rightarrow> (Inl (HTTPException 500 ''Failed to record vote''), s')
      | (Inr resp, s') \<Rightarrow> (Inr resp, s'))"

text \<open>
  \<open>Car(**car_dict)\<close>: the four given fields, the id from \<open>uuid.uuid4()\<close>, the creation
  time from \<open>datetime.utcnow()\<close> (both supplied by the caller of the model), and the
  defaults of the tallies.
\<close>

definition new_Car :: "string \<Rightarrow> datetime \<Rightarrow> CarCreate \<Rightarrow> Car" where
  "new_Car uuid now car_data =
     \<lparr>car_id = uuid, car_make = cc_make car_data, model = cc_model car_data,
      year = cc_year car_data, image_url = cc_image_url car_data,
      hot_votes = 0, not_votes = 0, total_votes = 0, hot_percentage = 0, created_at = now\<rparr>"

definition create_car_try ::
  "string \<Rightarrow> datetime \<Rightarrow> CarCreate \<Rightarrow> store \<Rightarrow> (exn + CarResponse) \<times> store" where
  "create_car_try uuid now car_data s =
     (let car_obj = new_Car uuid now car_data
      in case insert_one car_obj s of
           (Inl e, s') \<Rightarrow> (Inl e, s')
         | (Inr _, s') \<Rightarrow>
             (Inr (car_response car_obj (hot_votes car_obj) (not_votes car_obj)
                     (total_votes car_obj) (hot_percentage car_obj)), s'))"

definition create_car ::
  "string \<Rightarrow> datetime \<Rightarrow> CarCreate \<Rightarrow> store \<Rightarrow> (exn + CarResponse) \<times> store" where
  "create_car uuid now car_data s =
     (case create_car_try uuid now car_data s of
        (Inl e, s') \<Rightarrow> (Inl (HTTPException 500 ''Failed to create car''), s')
      | (Inr resp, s') \<Rightarrow> (Inr resp, s'))"

text \<open>The decimal digits of a count, as an f-string renders it.\<close>

fun str_nat :: "nat \<Rightarrow> string" where
  "str_nat n =
     (if n < 10 then [''0123456789'' ! n]
      else str_nat (n div 10) @ [''0123456789'' ! (n mod 10)])"

declare str_nat.simps [simp del]

definition unsplash :: "string \<Rightarrow> string" where
  "unsplash photo =
     ''https://images.unsplash.com/'' @ photo @ ''?w=800&h=450&fit=crop&crop=center''"

definition sample_cars :: "CarCreate list" where
  "sample_cars = [
    \<lparr>cc_make = ''Ferrari'', cc_model = ''488 GTB'', cc_year = 2020,
     cc_image_url = unsplash ''photo-1544636331-e26879cd4d9b''\<rparr>,
    \<lparr>cc_make = ''Lamborghini'', cc_model = ''Huracan'', cc_year = 2021,
     cc_image_url = unsplash ''photo-1563720223185-11003d516935''\<rparr>,
    \<lparr>cc_make = ''Porsche'', cc_model = ''911 GT3'', cc_year = 2022,
     cc_image_url = unsplash ''photo-1503376780353-7e6692767b70''\<rparr>,
    \<lparr>cc_make = ''McLaren'', cc_model = ''720S'', cc_year = 2020,
     cc_image_url = unsplash ''photo-1558618666-fcd25c85cd64''\<rparr>,
    \<lparr>cc_make = ''Bugatti'', cc_model = ''Chiron'', cc_year = 2021,
     cc_image_url = unsplash ''photo-1525609004556-c46c7d6cf023''\<rparr>,
    \<lparr>cc_make = ''Aston Martin'', cc_model = ''DBS Superleggera'', cc_year = 2020,
     cc_image_url = unsplash ''photo-1570618834314-ec2ec95d4d7c''\<rparr>,
    \<lparr>cc_make = ''BMW'', cc_model = ''M4'', cc_year = 2021,
     cc_image_url = unsplash ''photo-1555215695-3004980ad54e''\<rparr>,
    \<lparr>cc_make = ''Mercedes'', cc_model = ''AMG GT'', cc_year = 2020,
     cc_image_url = unsplash ''photo-1563707346-8d5c8dd7e63a''\<rparr>,
    \<lparr>cc_make = ''Audi'', cc_model = ''R8'', cc_year = 2021,
     cc_image_url = unsplash ''photo-1544636331-e26879cd4d9b''\<rparr>,
    \<lparr>cc_make = ''Tesla'', cc_model = ''Model S Plaid'', cc_year = 2022,
     cc_image_url = unsplash ''photo-1560958089-b8a1929cea89''\<rparr>,
    \<lparr>cc_make = ''Chevrolet'', cc_model = ''Corvette C8'', cc_year = 2021,
     cc_image_url = unsplash ''photo-1552519507-da3b142c6e3d''\<rparr>,
    \<lparr>cc_make = ''Ford'', cc_model = ''Mustang Shelby GT500'', cc_year = 2020,
     cc_image_url = unsplash ''photo-1494976688153-d4c7c48bbcdb''\<rparr>]"

text \<open>The result dictionary of \<open>initialize_cars\<close>; \<open>car_count\<close> is present after seeding only.\<close>

record InitResult =
  ir_message :: string
  initialized :: bool
  car_count :: "nat option"

text \<open>
  \<open>initialize_cars\<close>. The \<open>i\<close>-th sample car takes the id \<open>uuid i\<close> and the creation
  time \<open>now i\<close>.
\<close>

definition initialize_cars_try ::
  "(nat \<Rightarrow> string) \<Rightarrow> (nat \<Rightarrow> datetime) \<Rightarrow> store \<Rightarrow> (exn + InitResult) \<times> store" where
  "initialize_cars_try uuid now s =
     (case count_documents s of
        (Inl e, s1) \<Rightarrow> (Inl e, s1)
      | (Inr existing_count, s1) \<Rightarrow>
          if existing_count > 0
          then (Inr \<lparr>ir_message = ''Database already has '' @ str_nat existing_count @ '' cars'',
                     initialized = False, car_count = None\<rparr>, s1)
          else
            (let cars_to_insert =
                   map (\<lambda>(i, car_data). new_Car (uuid i) (now i) car_data)
                     (enumerate 0 sample_cars)
             in case insert_many cars_to_insert s1 of
                  (Inl e, s2) \<Rightarrow> (Inl e, s2)
                | (Inr inserted, s2) \<Rightarrow>
                    (Inr \<lparr>ir_message = ''Successfully initialized '' @ str_nat inserted @ '' cars'',
                          initialized = True, car_count = Some inserted\<rparr>, s2)))"

definition initialize_cars ::
  "(nat \<Rightarrow> string) \<Rightarrow> (nat \<Rightarrow> datetime) \<Rightarrow> store \<Rightarrow> (exn + InitResult) \<times> store" where
  "initialize_cars uuid now s =
     (case initialize_cars_try uuid now s of
        (Inl e, s') \<Rightarrow> (Inl (HTTPException 500 ''Failed to initialize cars''), s')
      | (Inr res, s') \<Rightarrow> (Inr res, s'))"

section \<open>AI agent routes\<close>

text \<open>
  The classes \<open>SearchAgent\<close> and \<open>ChatAgent\<close> come from the module \<open>ai_agents.agents\<close>,
  which is not part of the sources at hand. The routes use an agent through two methods
  only, and the model takes an agent as the pair of their behaviours:
  \<open>execute(message, use_tools)\<close>, which raises or returns a result with the attributes
  \<open>success\<close>, \<open>content\<close>, \<open>metadata\<close> and \<open>error\<close>, and \<open>get_capabilities()\<close>, which
  raises or returns a list of strings. The values of the metadata dictionary are of an
  arbitrary type \<open>'v\<close>.
\<close>

record 'v AgentResult =
  success :: bool
  content :: string
  metadata :: "string \<rightharpoonup> 'v"
  error :: "string option"

record 'v Agent =
  execute :: "string \<Rightarrow> bool option \<Rightarrow> exn + 'v AgentResult"
  get_capabilities :: "exn + string list"

text \<open>
  What the routes take from outside the sources: the outcome of constructing an agent of
  either class, the framework's \<open>str()\<close> of an \<open>HTTPException\<close>, and the validation of
  a metadata value as the int field \<open>sources_count\<close> of the response model.
\<close>

record 'v agent_env =
  SearchAgent :: "exn + 'v Agent"
  ChatAgent :: "exn + 'v Agent"
  http_str :: "nat \<Rightarrow> string \<Rightarrow> string"
  int_field :: "'v \<Rightarrow> exn + int"

text \<open>The two module-level globals.\<close>

record 'v agents =
  search_agent :: "'v Agent option"
  chat_agent :: "'v Agent option"

record 'v ChatRequest =
  cq_message :: string
  cq_agent_type :: string
  cq_context :: "(string \<rightharpoonup> 'v) option"

record 'v ChatResponse =
  ch_success :: bool
  ch_response :: string
  ch_agent_type :: string
  ch_capabilities :: "string list"
  ch_metadata :: "string \<rightharpoonup> 'v"
  ch_error :: "string option"

record SearchRequest =
  query :: string
  max_results :: int

record 'v SearchResponse =
  sr_success :: bool
  sr_query :: string
  sr_summary :: string
  sr_search_results :: "(string \<rightharpoonup> 'v) option"
  sr_sources_count :: int
  sr_error :: "string option"

fun str_exn :: "'v agent_env \<Rightarrow> exn \<Rightarrow> string" where
  "str_exn env (PyException m) = m"
| "str_exn env (HTTPException code detail) = http_str env code detail"

text \<open>\<open>chat_with_agent\<close>: "Init agents if needed", "Select agent", "Execute agent".\<close>

definition init_agents :: "'v agent_env \<Rightarrow> 'v ChatRequest \<Rightarrow> 'v agents \<Rightarrow> exn + 'v agents" where
  "init_agents env request g =
     (if cq_agent_type request = ''search'' \<and> search_agent g = None
      then (case SearchAgent env of
              Inl e \<Rightarrow> Inl e
            | Inr a \<Rightarrow> Inr (g\<lparr>search_agent := Some a\<rparr>))
      else if cq_agent_type request = ''chat'' \<and> chat_agent g = None
      then (case ChatAgent env of
              Inl e \<Rightarrow> Inl e
            | Inr a \<Rightarrow> Inr (g\<lparr>chat_agent := Some a\<rparr>))
      else Inr g)"

definition select_agent :: "'v ChatRequest \<Rightarrow> 'v agents \<Rightarrow> 'v Agent option" where
  "select_agent request g =
     (if cq_agent_type request = ''search'' then search_agent g else chat_agent g)"

definition chat_with_agent_try ::
  "'v agent_env \<Rightarrow> 'v ChatRequest \<Rightarrow> 'v agents \<Rightarrow> (exn + 'v ChatResponse) \<times> 'v agents" where
  "chat_with_agent_try env request g =
     (case init_agents env request g of
        Inl e \<Rightarrow> (Inl e, g)
      | Inr g1 \<Rightarrow>
          (case select_agent request g1 of
             None \<Rightarrow> (Inl (HTTPException 500 ''Failed to initialize agent''), g1)
           | Some agent \<Rightarrow>
               (case execute agent (cq_message request) None of
                  Inl e \<Rightarrow> (Inl e, g1)
                | Inr response \<Rightarrow>
                    (case get_capabilities agent of
                       Inl e \<Rightarrow> (Inl e, g1)
                     | Inr caps \<Rightarrow>
                         (Inr \<lparr>ch_success = success response, ch_response = content response,
                               ch_agent_type = cq_agent_type request, ch_capabilities = caps,
                               ch_metadata = metadata response, ch_error = error response\<rparr>,
                          g1)))))"

definition chat_failure :: "'v ChatRequest \<Rightarrow> string \<Rightarrow> 'v ChatResponse" where
  "chat_failure request msg =
     \<lparr>ch_success = False, ch_response = [], ch_agent_type = cq_agent_type request,
      ch_capabilities = [], ch_metadata = Map.empty, ch_error = Some msg\<rparr>"

definition chat_with_agent ::
  "'v agent_env \<Rightarrow> 'v ChatRequest \<Rightarrow> 'v agents \<Rightarrow> (exn + 'v ChatResponse) \<times> 'v agents" where
  "chat_with_agent env request g =
     (case chat_with_agent_try env request g of
        (Inl e, g') \<Rightarrow> (Inr (chat_failure request (str_exn env e)), g')
      | (Inr resp, g') \<Rightarrow> (Inr resp, g'))"

text \<open>\<open>search_and_summarize\<close>.\<close>

text \<open>
  "Init search agent if needed": the global is set when it was \<open>None\<close>; the second
  component is the agent that the global names afterwards.
\<close>

definition init_search_agent :: "'v agent_env \<Rightarrow> 'v agents \<Rightarrow> exn + 'v Agent \<times> 'v agents" where
  "init_search_agent env g =
     (case search_agent g of
        None \<Rightarrow>
          (case SearchAgent env of
             Inl e \<Rightarrow> Inl e
           | Inr a \<Rightarrow> Inr (a, g\<lparr>search_agent := Some a\<rparr>))
      | Some a \<Rightarrow> Inr (a, g))"

definition search_prompt :: "SearchRequest \<Rightarrow> string" where
  "search_prompt request =
     ''Search for information about: '' @ query request
       @ ''. Provide a comprehensive summary with key findings.''"

text \<open>
  \<open>result.metadata.get("tools_used", 0)\<close>, validated as the int field \<open>sources_count\<close>.
\<close>

definition tools_used :: "'v agent_env \<Rightarrow> 'v AgentResult \<Rightarrow> exn + int" where
  "tools_used env result =
     (case metadata result ''tools_used'' of
        None \<Rightarrow> Inr 0
      | Some v \<Rightarrow> int_field env v)"

definition search_and_summarize_try ::
  "'v agent_env \<Rightarrow> SearchRequest \<Rightarrow> 'v agents \<Rightarrow> (exn + 'v SearchResponse) \<times> 'v agents" where
  "search_and_summarize_try env request g =
     (case init_search_agent env g of
        Inl e \<Rightarrow> (Inl e, g)
      | Inr (agent, g1) \<Rightarrow>
          (case execute agent (search_prompt request) (Some True) of
             Inl e \<Rightarrow> (Inl e, g1)
           | Inr result \<Rightarrow>
               if success result
               then (case tools_used env result of
                       Inl e \<Rightarrow> (Inl e, g1)
                     | Inr n \<Rightarrow>
                         (Inr \<lparr>sr_success = True, sr_query = query request,
                               sr_summary = content result,
                               sr_search_results = Some (metadata result),
                               sr_sources_count = n, sr_error = None\<rparr>, g1))
               else (Inr \<lparr>sr_success = False, sr_query = query request, sr_summary = [],
                           sr_search_results = None, sr_sources_count = 0,
                           sr_error = error result\<rparr>, g1)))"

definition search_failure :: "SearchRequest \<Rightarrow> string \<Rightarrow> 'v SearchResponse" where
  "search_failure request msg =
     \<lparr>sr_success = False, sr_query = query request, sr_summary = [],
      sr_search_results = None, sr_sources_count = 0, sr_error = Some msg\<rparr>"

definition search_and_summarize ::
  "'v agent_env \<Rightarrow> SearchRequest \<Rightarrow> 'v agents \<Rightarrow> (exn + 'v SearchResponse) \<times> 'v agents" where
  "search_and_summarize env request g =
     (case search_and_summarize_try env request g of
        (Inl e, g') \<Rightarrow> (Inr (search_failure request (str_exn env e)), g')
      | (Inr resp, g') \<Rightarrow> (Inr resp, g'))"

section \<open>Notions used by the properties\<close>

text \<open>The next \<open>n\<close> calls of the driver do not fail.\<close>

definition next_calls_succeed :: "nat \<Rightarrow> store \<Rightarrow> bool" where
  "next_calls_succeed n s = list_all (\<lambda>f. f = None) (take n (faults s))"

text \<open>
  Between the states \<open>s\<close> and \<open>s'\<close> some call of the driver has failed: the calls made
  are the ones the log has grown by, and each of them took one entry of the schedule.
\<close>

definition driver_failed :: "store \<Rightarrow> store \<Rightarrow> bool" where
  "driver_failed s s' =
     list_ex (\<lambda>f. f \<noteq> None) (take (length (log s') - length (log s)) (faults s))"

definition tallies :: "CarResponse \<Rightarrow> int \<times> int \<times> int \<times> pyfloat" where
  "tallies r = (cr_hot_votes r, cr_not_votes r, cr_total_votes r, cr_hot_percentage r)"

text \<open>
  The percentage as the specification words it, \<open>round(100 * hot_votes / total_votes, 1)\<close>:
  the product is an int, the division rounds once.
\<close>

definition spec_hot_percentage :: "int \<Rightarrow> int \<Rightarrow> pyfloat" where
  "spec_hot_percentage h t = py_round1 (py_truediv (100 * h) t)"

definition spec_car_invariant :: "Car \<Rightarrow> bool" where
  "spec_car_invariant c \<longleftrightarrow>
     total_votes c = hot_votes c + not_votes c \<and>
     (0 < total_votes c \<longrightarrow> hot_percentage c = spec_hot_percentage (hot_votes c) (total_votes c)) \<and>
     (total_votes c = 0 \<longrightarrow> hot_percentage c = 0)"

text \<open>
  The percentage as the vote route computes it, \<open>round(hot_votes / total_votes * 100, 1)\<close>:
  the quotient is rounded to a float before it is multiplied by 100.
\<close>

definition code_hot_percentage :: "int \<Rightarrow> int \<Rightarrow> pyfloat" where
  "code_hot_percentage h t = py_round1 (py_mul (py_truediv h t) 100)"

definition car_invariant :: "Car \<Rightarrow> bool" where
  "car_invariant c \<longleftrightarrow>
     total_votes c = hot_votes c + not_votes c \<and>
     (0 < total_votes c \<longrightarrow> hot_percentage c = code_hot_percentage (hot_votes c) (total_votes c)) \<and>
     (total_votes c = 0 \<longrightarrow> hot_percentage c = 0)"

section \<open>Example data\<close>

definition store_of :: "Car list \<Rightarrow> store" where
  "store_of cs = \<lparr>cars = cs, faults = [], log = []\<rparr>"

definition ferrari :: CarCreate where
  "ferrari = \<lparr>cc_make = ''Ferrari'', cc_model = ''488 GTB'', cc_year = 2020,
              cc_image_url = unsplash ''photo-1544636331-e26879cd4d9b''\<rparr>"

definition fresh_ferrari :: Car where
  "fresh_ferrari = new_Car ''c1'' 0 ferrari"

text \<open>The same car after 22 hot votes and 57 not votes, with the percentage 27.8.\<close>

definition voted_ferrari :: Car where
  "voted_ferrari =
     fresh_ferrari\<lparr>hot_votes := 22, not_votes := 57, total_votes := 79,
                   hot_percentage := fl (278 / 10)\<rparr>"

definition vote_hot :: VoteRequest where
  "vote_hot = \<lparr>vr_car_id = ''c1'', vote_type = ''hot''\<rparr>"

definition vote_not :: VoteRequest where
  "vote_not = \<lparr>vr_car_id = ''c1'', vote_type = ''not''\<rparr>"

text \<open>A store of two cars, and the outcome of a hot vote for the second one.\<close>

definition second_car :: Car where
  "second_car = fresh_ferrari\<lparr>car_id := ''c2''\<rparr>"

definition two_cars :: store where
  "two_cars = store_of [voted_ferrari, second_car]"

definition second_car_response :: VoteResponse where
  "second_car_response =
     \<lparr>vs_success = True, vs_car = car_response second_car 1 0 1 100,
      vs_message = ''Vote recorded! This car is 100.0% hot.''\<rparr>"

definition two_cars_voted :: store where
  "two_cars_voted =
     \<lparr>cars = [voted_ferrari,
              second_car\<lparr>hot_votes := 1, not_votes := 0, total_votes := 1, hot_percentage := 100\<rparr>],
      faults = [], log = [FindOne ''c2'', UpdateOne ''c2'']\<rparr>"

text \<open>Ids and creation times for the seeding.\<close>

definition example_uuid :: "nat \<Rightarrow> string" where
  "example_uuid i = ''car-'' @ str_nat i"

definition example_now :: "nat \<Rightarrow> datetime" where
  "example_now i = 0"

text \<open>
  An agent that answers with the message it was given, one whose execution raises, and an
  environment in which the chat agent can be constructed and the search agent cannot.
\<close>

definition echo_agent :: "int Agent" where
  "echo_agent =
     \<lparr>execute = (\<lambda>msg use_tools.
         Inr \<lparr>success = True, content = msg, metadata = Map.empty, error = None\<rparr>),
      get_capabilities = Inr [''chat'']\<rparr>"

definition broken_agent :: "int Agent" where
  "broken_agent =
     \<lparr>execute = (\<lambda>msg use_tools. Inl (PyException ''connection refused'')),
      get_capabilities = Inr [''search'']\<rparr>"

definition example_env :: "int agent_env" where
  "example_env =
     \<lparr>SearchAgent = Inl (PyException ''missing API key''), ChatAgent = Inr echo_agent,
      http_str = (\<lambda>code detail. str_nat code @ '': '' @ detail), int_field = Inr\<rparr>"

definition no_agents :: "int agents" where
  "no_agents = \<lparr>search_agent = None, chat_agent = None\<rparr>"

definition bogus_request :: "int ChatRequest" where
  "bogus_request = \<lparr>cq_message = ''hello'', cq_agent_type = ''bogus'', cq_context = None\<rparr>"

definition down_store :: store where
  "down_store = \<lparr>cars = [fresh_ferrari], faults = [Some ''connection lost''], log = []\<rparr>"

text \<open>Stores whose driver answers the first call and fails at the second one.\<close>

definition flaky_store :: store where
  "flaky_store = \<lparr>cars = [fresh_ferrari], faults = [None, Some ''connection lost''], log = []\<rparr>"

definition flaky_empty_store :: store where
  "flaky_empty_store = \<lparr>cars = [], faults = [None, Some ''connection lost''], log = []\<rparr>"

definition search_chat_request :: "int ChatRequest" where
  "search_chat_request = \<lparr>cq_message = ''hello'', cq_agent_type = ''search'', cq_context = None\<rparr>"

definition chat_request :: "int ChatRequest" where
  "chat_request = \<lparr>cq_message = ''hello'', cq_agent_type = ''chat'', cq_context = None\<rparr>"

definition cars_query :: SearchRequest where
  "cars_query = \<lparr>query = ''fast cars'', max_results = 5\<rparr>"

definition no_chat_env :: "int agent_env" where
  "no_chat_env = example_env\<lparr>ChatAgent := Inl (PyException ''missing API key'')\<rparr>"

definition broken_agents :: "int agents" where
  "broken_agents = \<lparr>search_agent = Some broken_agent, chat_agent = Some broken_agent\<rparr>"

definition chat_ready :: "int agents" where
  "chat_ready = \<lparr>search_agent = None, chat_agent = Some echo_agent\<rparr>"

text \<open>An agent whose search reports failure in its result instead of raising.\<close>

definition declining_agent :: "int Agent" where
  "declining_agent =
     \<lparr>execute = (\<lambda>msg use_tools.
         Inr \<lparr>success = False, content = ''partial answer'', metadata = Map.empty,
              error = Some ''rate limited''\<rparr>),
      get_capabilities = Inr [''search'']\<rparr>"

definition declining_agents :: "int agents" where
  "declining_agents = \<lparr>search_agent = Some declining_agent, chat_agent = None\<rparr>"

section \<open>The rounding is a rounding to nearest\<close>

text \<open>
  The exponent that \<open>ilog2\<close> computes brackets the number between two powers of two, and
  \<open>fl\<close> moves a number by at most half a unit in the last place of its 53-bit significand.
\<close>

lemma pow2_pos: "0 < pow2 e"
  by (simp add: pow2_def)

lemma pow2_nat: "0 \<le> e \<Longrightarrow> pow2 e = 2 ^ nat e"
  by (simp add: pow2_def)

lemma pow2_neg: "e \<le> 0 \<Longrightarrow> pow2 e = 1 / 2 ^ nat (- e)"
  by (cases "e = 0") (simp_all add: pow2_def)

lemma ilog2_bounds:
  assumes "q \<noteq> 0"
  shows "pow2 (ilog2 q) \<le> \<bar>q\<bar> \<and> \<bar>q\<bar> < pow2 (ilog2 q + 1)"
proof (cases "1 \<le> \<bar>q\<bar>")
  case True
  define n where "n = \<lfloor>\<bar>q\<bar>\<rfloor>"
  from True have n: "1 \<le> n" by (simp add: n_def)
  then have b: "2 ^ nat (bitlen n - 1) \<le> n" "n < 2 ^ nat (bitlen n)"
    using bitlen_bounds[of n] by simp_all
  from n have b1: "1 \<le> bitlen n"
    by (simp add: bitlen_ge_iff_power)
  have lo: "(of_int n :: rat) \<le> \<bar>q\<bar>" and hi: "\<bar>q\<bar> < of_int n + 1"
    unfolding n_def by linarith+
  have c: "(of_int (2 ^ k) :: rat) = 2 ^ k" for k by simp
  have "(of_int (2 ^ nat (bitlen n - 1)) :: rat) \<le> of_int n"
    using b(1) by (simp only: of_int_le_iff)
  from this lo have "(of_int (2 ^ nat (bitlen n - 1)) :: rat) \<le> \<bar>q\<bar>"
    by (rule order_trans)
  then have 1: "(2::rat) ^ nat (bitlen n - 1) \<le> \<bar>q\<bar>"
    unfolding c .
  have "n + 1 \<le> 2 ^ nat (bitlen n)" using b(2) by simp
  then have "(of_int (n + 1) :: rat) \<le> of_int (2 ^ nat (bitlen n))"
    by (simp only: of_int_le_iff)
  then have "(of_int n + 1 :: rat) \<le> 2 ^ nat (bitlen n)"
    unfolding c by simp
  with hi have 2: "\<bar>q\<bar> < 2 ^ nat (bitlen n)"
    by (rule less_le_trans)
  from True b1 1 2 show ?thesis
    by (simp add: ilog2_def n_def[symmetric] pow2_nat)
next
  case False
  define r where "r = 1 / \<bar>q\<bar>"
  define m where "m = \<lceil>r\<rceil> - 1"
  from False assms have q: "0 < \<bar>q\<bar>" "\<bar>q\<bar> < 1" by simp_all
  then have r: "1 < r" by (simp add: r_def)
  then have m: "1 \<le> m" unfolding m_def by linarith
  then have b: "2 ^ nat (bitlen m - 1) \<le> m" "m < 2 ^ nat (bitlen m)"
    using bitlen_bounds[of m] by simp_all
  from m have b1: "1 \<le> bitlen m"
    by (simp add: bitlen_ge_iff_power)
  have lo: "(of_int m :: rat) < r" and hi: "r \<le> of_int m + 1"
    unfolding m_def by linarith+
  have c: "(of_int (2 ^ k) :: rat) = 2 ^ k" for k by simp
  have "(of_int (2 ^ nat (bitlen m - 1)) :: rat) \<le> of_int m"
    using b(1) by (simp only: of_int_le_iff)
  from this lo have "(of_int (2 ^ nat (bitlen m - 1)) :: rat) < r"
    by (rule le_less_trans)
  then have 1: "(2::rat) ^ nat (bitlen m - 1) < r"
    unfolding c .
  have "m + 1 \<le> 2 ^ nat (bitlen m)" using b(2) by simp
  then have "(of_int (m + 1) :: rat) \<le> of_int (2 ^ nat (bitlen m))"
    by (simp only: of_int_le_iff)
  then have "(of_int m + 1 :: rat) \<le> 2 ^ nat (bitlen m)"
    unfolding c by simp
  with hi have 2: "r \<le> 2 ^ nat (bitlen m)"
    by (rule order_trans)
  have il: "ilog2 q = - bitlen m"
    using False by (simp add: ilog2_def m_def r_def)
  have p1: "pow2 (- bitlen m) = 1 / 2 ^ nat (bitlen m)"
    using b1 by (simp add: pow2_neg)
  have p2: "pow2 (1 - bitlen m) = 1 / 2 ^ nat (bitlen m - 1)"
    using b1 pow2_neg[of "1 - bitlen m"] by simp
  have "1 / 2 ^ nat (bitlen m) \<le> \<bar>q\<bar>"
    using 2 q by (simp add: r_def field_simps)
  moreover have "\<bar>q\<bar> < 1 / 2 ^ nat (bitlen m - 1)"
    using 1 q by (simp add: r_def field_simps)
  ultimately show ?thesis
    by (simp add: il p1 p2)
qed

lemma round_half_even_nearest: "\<bar>of_int (round_half_even q) - q\<bar> \<le> 1 / 2"
proof -
  have "of_int \<lfloor>q\<rfloor> \<le> q" "q < of_int \<lfloor>q\<rfloor> + 1" by linarith+
  then show ?thesis
    by (auto simp: round_half_even_def Let_def)
qed

lemma fl_error:
  assumes "q \<noteq> 0"
  shows "\<bar>fl q - q\<bar> \<le> pow2 (ilog2 q - 52) / 2"
proof -
  define e where "e = ilog2 q - 52"
  have "fl q - q = (of_int (round_half_even (q / pow2 e)) - q / pow2 e) * pow2 e"
    using assms pow2_pos[of e] by (simp add: fl_def e_def Let_def field_simps)
  then have "\<bar>fl q - q\<bar> = \<bar>of_int (round_half_even (q / pow2 e)) - q / pow2 e\<bar> * pow2 e"
    using pow2_pos[of e] by (simp add: abs_mult)
  also have "\<dots> \<le> 1 / 2 * pow2 e"
    using round_half_even_nearest[of "q / pow2 e"] pow2_pos[of e]
    by (intro mult_right_mono) simp_all
  finally show ?thesis by (simp add: e_def)
qed

section \<open>Evaluating the float operations\<close>

text \<open>
  Floors and ceilings of numeral fractions, so that the simplifier evaluates the float
  operations on concrete counters.
\<close>

lemma floor_rat_numeral: "\<lfloor>numeral a / numeral b :: rat\<rfloor> = numeral a div numeral b"
  by (metis floor_divide_of_int_eq of_int_numeral)

lemma ceiling_rat_numeral: "\<lceil>numeral a / numeral b :: rat\<rceil> = - (- numeral a div numeral b)"
  using ceiling_divide_eq_div[of "numeral a" "numeral b", where ?'a = rat] by simp

lemmas float_eval = py_round1_def py_mul_def py_truediv_def fl_def ilog2_def round_half_even_def
  pow2_def Let_def compute_bitlen floor_rat_numeral ceiling_rat_numeral

text \<open>
  Values of the two percentage formulas. One hot vote out of one gives 100.0, one out of two
  gives 50.0. At 23 hot votes out of 80 the formulas part: \<open>23 / 80\<close> rounds to a float
  just below 0.2875, the product with 100 is 28.749999999999996, and \<open>round\<close> gives
  28.7; \<open>100 * 23 / 80\<close> is 28.75 exactly, a tie, and \<open>round\<close> gives 28.8.
\<close>

lemma code_hot_percentage_1_1: "code_hot_percentage 1 1 = 100"
  by (simp add: code_hot_percentage_def float_eval)

lemma code_hot_percentage_1_2: "code_hot_percentage 1 2 = 50"
  by (simp add: code_hot_percentage_def float_eval)

lemma fl_287: "fl (287 / 10) = 8078331831595827 / 281474976710656"
  by (simp add: float_eval)

lemma fl_288: "fl (288 / 10) = 8106479329266893 / 281474976710656"
  by (simp add: float_eval)

lemma fl_278: "fl (278 / 10) = 7825004352556237 / 281474976710656"
  by (simp add: float_eval)

lemma code_23_80: "code_hot_percentage 23 80 = fl (287 / 10)"
  by (simp add: code_hot_percentage_def float_eval)

lemma spec_23_80: "spec_hot_percentage 23 80 = fl (288 / 10)"
  by (simp add: spec_hot_percentage_def float_eval)

lemma spec_22_79: "spec_hot_percentage 22 79 = fl (278 / 10)"
  by (simp add: spec_hot_percentage_def float_eval)

section \<open>The store operations\<close>

lemma driver_call_ok:
  assumes "next_calls_succeed (Suc n) s"
  shows "\<exists>s'. driver_call op s = (None, s') \<and> cars s' = cars s \<and> log s' = log s @ [op]
            \<and> next_calls_succeed n s'"
  using assms by (cases "faults s") (auto simp: driver_call_def next_calls_succeed_def)

lemma find_update_first:
  "find P xs = Some c \<Longrightarrow> P (f c) \<Longrightarrow> find P (update_first P f xs) = Some (f c)"
  by (induction xs) (auto split: if_splits)

lemma update_first_frame:
  "find P xs = Some c \<Longrightarrow>
     \<exists>i < length xs. xs ! i = c \<and> (\<forall>j < i. \<not> P (xs ! j)) \<and> update_first P f xs = xs[i := f c]"
proof (induction xs)
  case Nil
  then show ?case by simp
next
  case (Cons x xs)
  show ?case
  proof (cases "P x")
    case True
    with Cons.prems have "x = c" by simp
    with True show ?thesis by (intro exI[of _ 0]) simp
  next
    case False
    with Cons.prems have "find P xs = Some c" by simp
    from Cons.IH[OF this] obtain i where i: "i < length xs" "xs ! i = c"
      "\<forall>j < i. \<not> P (xs ! j)" "update_first P f xs = xs[i := f c]" by blast
    have "\<forall>j < Suc i. \<not> P ((x # xs) ! j)"
      using False i(3) by (auto simp: less_Suc_eq_0_disj)
    with i False show ?thesis by (intro exI[of _ "Suc i"]) simp
  qed
qed


lemma find_one_ok:
  assumes "next_calls_succeed (Suc n) s"
  shows "\<exists>s'. find_one cid s = (Inr (find (\<lambda>c. car_id c = cid) (cars s)), s') \<and> cars s' = cars s
            \<and> log s' = log s @ [FindOne cid] \<and> next_calls_succeed n s'"
  using driver_call_ok[OF assms, of "FindOne cid"] by (auto simp: find_one_def)

lemma update_one_ok:
  assumes "next_calls_succeed (Suc n) s"
  shows "\<exists>s'. update_one cid f s = (Inr (), s')
            \<and> cars s' = update_first (\<lambda>c. car_id c = cid) f (cars s)
            \<and> log s' = log s @ [UpdateOne cid] \<and> next_calls_succeed n s'"
  using driver_call_ok[OF assms, of "UpdateOne cid"]
  by (auto simp: update_one_def next_calls_succeed_def)

section \<open>Voting\<close>

text \<open>
  A vote of a valid type for a stored car, with a driver that does not fail: the route
  returns, and the response and the stored document carry the new tallies.
\<close>

lemma vote_for_car_found:
  assumes vt: "vote_type vote_request = ''hot'' \<or> vote_type vote_request = ''not''"
    and found: "find (\<lambda>c. car_id c = cid) (cars s) = Some car"
    and ok: "next_calls_succeed (Suc (Suc n)) s"
  shows "\<exists>resp s'. vote_for_car float_str cid vote_request s = (Inr resp, s')
           \<and> cr_hot_votes (vs_car resp)
               = (if vote_type vote_request = ''hot'' then hot_votes car + 1 else hot_votes car)
           \<and> cr_not_votes (vs_car resp)
               = (if vote_type vote_request = ''hot'' then not_votes car else not_votes car + 1)
           \<and> cr_total_votes (vs_car resp)
               = cr_hot_votes (vs_car resp) + cr_not_votes (vs_car resp)
           \<and> cr_hot_percentage (vs_car resp)
               = (if 0 < cr_total_votes (vs_car resp)
                  then code_hot_percentage (cr_hot_votes (vs_car resp)) (cr_total_votes (vs_car resp))
                  else 0)
           \<and> find (\<lambda>c. car_id c = cid) (cars s')
               = Some (car\<lparr>hot_votes := cr_hot_votes (vs_car resp),
                          not_votes := cr_not_votes (vs_car resp),
                          total_votes := cr_total_votes (vs_car resp),
                          hot_percentage := cr_hot_percentage (vs_car resp)\<rparr>)
           \<and> next_calls_succeed n s'"
proof -
  from find_one_ok[OF ok, of cid] found obtain s1 where
    s1: "find_one cid s = (Inr (Some car), s1)" "cars s1 = cars s" "next_calls_succeed (Suc n) s1"
    by auto
  have cid: "car_id car = cid"
    using found by (auto simp: find_Some_iff)
  define h where "h = (if vote_type vote_request = ''hot'' then hot_votes car + 1 else hot_votes car)"
  define m where "m = (if vote_type vote_request = ''hot'' then not_votes car else not_votes car + 1)"
  define p where "p = (if 0 < h + m then py_round1 (py_mul (py_truediv h (h + m)) 100) else 0)"
  define upd where "upd = (\<lambda>c::Car. c\<lparr>hot_votes := h, not_votes := m, total_votes := h + m,
                                    hot_percentage := p\<rparr>)"
  from update_one_ok[OF s1(3), of cid upd] obtain s2 where
    s2: "update_one cid upd s1 = (Inr (), s2)"
        "cars s2 = update_first (\<lambda>c. car_id c = cid) upd (cars s1)"
        "next_calls_succeed n s2"
    by auto
  have stored: "find (\<lambda>c. car_id c = cid) (cars s2) = Some (upd car)"
    unfolding s2(2) s1(2) by (rule find_update_first[OF found]) (simp add: upd_def cid)
  have "vote_for_car float_str cid vote_request s =
          (Inr \<lparr>vs_success = True, vs_car = car_response car h m (h + m) p,
                vs_message = ''Vote recorded! This car is '' @ float_str p @ ''% hot.''\<rparr>, s2)"
    using vt s1(1) s2(1)
    by (auto simp: vote_for_car_def vote_for_car_try_def Let_def h_def m_def p_def upd_def)
  with stored s2(3) show ?thesis
    by (auto simp: car_response_def upd_def p_def code_hot_percentage_def h_def m_def)
qed


text \<open>
  Claim C1, amended. For every stored car and every vote type in \<open>{"hot", "not"}\<close>, the
  vote increments exactly one of the two counters by 1 and leaves the other one unchanged,
  the new total is the sum of the two new counters, and the new percentage is
  \<open>round(new_hot_votes / new_total_votes * 100, 1)\<close> as the route evaluates it in float
  arithmetic (the quotient is rounded before the multiplication) when the new total is
  positive, and 0 otherwise; the stored document gets the same four values. A hot vote for
  a fresh car yields the tallies \<open>(1, 0, 1, 100.0)\<close> and a not vote after it
  \<open>(1, 1, 2, 50.0)\<close>.
\<close>

theorem vote_for_car_tallies:
  "(vote_type vote_request \<in> {''hot'', ''not''}
      \<and> find (\<lambda>c. car_id c = cid) (cars s) = Some car \<and> next_calls_succeed 2 s
    \<longrightarrow> (\<exists>resp s'. vote_for_car float_str cid vote_request s = (Inr resp, s')
           \<and> cr_hot_votes (vs_car resp)
               = (if vote_type vote_request = ''hot'' then hot_votes car + 1 else hot_votes car)
           \<and> cr_not_votes (vs_car resp)
               = (if vote_type vote_request = ''hot'' then not_votes car else not_votes car + 1)
           \<and> cr_total_votes (vs_car resp)
               = cr_hot_votes (vs_car resp) + cr_not_votes (vs_car resp)
           \<and> cr_hot_percentage (vs_car resp)
               = (if 0 < cr_total_votes (vs_car resp)
                  then py_round1 (py_mul (py_truediv (cr_hot_votes (vs_car resp))
                                            (cr_total_votes (vs_car resp))) 100)
                  else 0)
           \<and> find (\<lambda>c. car_id c = cid) (cars s')
               = Some (car\<lparr>hot_votes := cr_hot_votes (vs_car resp),
                          not_votes := cr_not_votes (vs_car resp),
                          total_votes := cr_total_votes (vs_car resp),
                          hot_percentage := cr_hot_percentage (vs_car resp)\<rparr>)))
   \<and> (vote_type first_vote = ''hot'' \<and> vote_type second_vote = ''not''
        \<and> find (\<lambda>c. car_id c = cid) (cars s) = Some car
        \<and> hot_votes car = 0 \<and> not_votes car = 0 \<and> next_calls_succeed 4 s
      \<longrightarrow> (\<exists>resp1 s1 resp2 s2.
             vote_for_car float_str cid first_vote s = (Inr resp1, s1)
           \<and> tallies (vs_car resp1) = (1, 0, 1, 100)
           \<and> vote_for_car float_str cid second_vote s1 = (Inr resp2, s2)
           \<and> tallies (vs_car resp2) = (1, 1, 2, 50)))"
proof (intro conjI impI)
  assume a: "vote_type vote_request \<in> {''hot'', ''not''}
      \<and> find (\<lambda>c. car_id c = cid) (cars s) = Some car \<and> next_calls_succeed 2 s"
  then have "next_calls_succeed (Suc (Suc 0)) s"
    by (simp add: numeral_2_eq_2)
  from vote_for_car_found[OF _ _ this, of vote_request cid car float_str] a
  show "\<exists>resp s'. vote_for_car float_str cid vote_request s = (Inr resp, s')
           \<and> cr_hot_votes (vs_car resp)
               = (if vote_type vote_request = ''hot'' then hot_votes car + 1 else hot_votes car)
           \<and> cr_not_votes (vs_car resp)
               = (if vote_type vote_request = ''hot'' then not_votes car else not_votes car + 1)
           \<and> cr_total_votes (vs_car resp)
               = cr_hot_votes (vs_car resp) + cr_not_votes (vs_car resp)
           \<and> cr_hot_percentage (vs_car resp)
               = (if 0 < cr_total_votes (vs_car resp)
                  then py_round1 (py_mul (py_truediv (cr_hot_votes (vs_car resp))
                                            (cr_total_votes (vs_car resp))) 100)
                  else 0)
           \<and> find (\<lambda>c. car_id c = cid) (cars s')
               = Some (car\<lparr>hot_votes := cr_hot_votes (vs_car resp),
                          not_votes := cr_not_votes (vs_car resp),
                          total_votes := cr_total_votes (vs_car resp),
                          hot_percentage := cr_hot_percentage (vs_car resp)\<rparr>)"
    unfolding code_hot_percentage_def by blast
next
  assume a: "vote_type first_vote = ''hot'' \<and> vote_type second_vote = ''not''
        \<and> find (\<lambda>c. car_id c = cid) (cars s) = Some car
        \<and> hot_votes car = 0 \<and> not_votes car = 0 \<and> next_calls_succeed 4 s"
  then have ok: "next_calls_succeed (Suc (Suc (Suc (Suc 0)))) s"
    by (simp add: eval_nat_numeral)
  from a have found: "find (\<lambda>c. car_id c = cid) (cars s) = Some car" by simp
  from a have v1: "vote_type first_vote = ''hot'' \<or> vote_type first_vote = ''not''" by simp
  from a have v2: "vote_type second_vote = ''hot'' \<or> vote_type second_vote = ''not''" by simp
  from vote_for_car_found[OF v1 found ok, of float_str] obtain resp1 s1 where
    r1: "vote_for_car float_str cid first_vote s = (Inr resp1, s1)"
      "cr_hot_votes (vs_car resp1) = 1" "cr_not_votes (vs_car resp1) = 0"
      "cr_total_votes (vs_car resp1) = 1"
      "cr_hot_percentage (vs_car resp1) = code_hot_percentage 1 1"
      "find (\<lambda>c. car_id c = cid) (cars s1)
         = Some (car\<lparr>hot_votes := cr_hot_votes (vs_car resp1),
                    not_votes := cr_not_votes (vs_car resp1),
                    total_votes := cr_total_votes (vs_car resp1),
                    hot_percentage := cr_hot_percentage (vs_car resp1)\<rparr>)"
      "next_calls_succeed (Suc (Suc 0)) s1"
    using a by auto
  from vote_for_car_found[OF v2 r1(6) r1(7), of float_str] obtain resp2 s2 where
    r2: "vote_for_car float_str cid second_vote s1 = (Inr resp2, s2)"
      "cr_hot_votes (vs_car resp2) = 1" "cr_not_votes (vs_car resp2) = 1"
      "cr_total_votes (vs_car resp2) = 2"
      "cr_hot_percentage (vs_car resp2) = code_hot_percentage 1 2"
    using a r1(2,3) by auto
  show "\<exists>resp1 s1 resp2 s2.
             vote_for_car float_str cid first_vote s = (Inr resp1, s1)
           \<and> tallies (vs_car resp1) = (1, 0, 1, 100)
           \<and> vote_for_car float_str cid second_vote s1 = (Inr resp2, s2)
           \<and> tallies (vs_car resp2) = (1, 1, 2, 50)"
    using r1(1-5) r2 by (auto simp: tallies_def code_hot_percentage_1_1 code_hot_percentage_1_2)
qed

text \<open>The two votes of the scenario on a store that holds one fresh car.\<close>

theorem vote_for_car_tallies_witness:
  "(\<exists>resp s'. vote_for_car (\<lambda>p. ''100.0'') ''c1'' vote_hot (store_of [fresh_ferrari]) = (Inr resp, s')
       \<and> cr_hot_votes (vs_car resp) = 1 \<and> cr_not_votes (vs_car resp) = 0
       \<and> cr_total_votes (vs_car resp) = 1)
   \<and> (\<exists>resp1 s1 resp2 s2.
         vote_for_car (\<lambda>p. ''100.0'') ''c1'' vote_hot (store_of [fresh_ferrari]) = (Inr resp1, s1)
       \<and> tallies (vs_car resp1) = (1, 0, 1, 100)
       \<and> vote_for_car (\<lambda>p. ''100.0'') ''c1'' vote_not s1 = (Inr resp2, s2)
       \<and> tallies (vs_car resp2) = (1, 1, 2, 50))"
proof -
  have pre: "vote_type vote_hot \<in> {''hot'', ''not''}"
    "vote_type vote_hot = ''hot''" "vote_type vote_not = ''not''"
    "find (\<lambda>c. car_id c = ''c1'') (cars (store_of [fresh_ferrari])) = Some fresh_ferrari"
    "hot_votes fresh_ferrari = 0" "not_votes fresh_ferrari = 0"
    "next_calls_succeed 2 (store_of [fresh_ferrari])"
    "next_calls_succeed 4 (store_of [fresh_ferrari])"
    by (simp_all add: vote_hot_def vote_not_def store_of_def fresh_ferrari_def new_Car_def
        next_calls_succeed_def)
  note inst = vote_for_car_tallies[of vote_hot "''c1''" "store_of [fresh_ferrari]" fresh_ferrari
      "\<lambda>p. ''100.0''" vote_hot vote_not]
  from inst pre have first: "\<exists>resp s'.
      vote_for_car (\<lambda>p. ''100.0'') ''c1'' vote_hot (store_of [fresh_ferrari]) = (Inr resp, s')
       \<and> cr_hot_votes (vs_car resp) = 1 \<and> cr_not_votes (vs_car resp) = 0
       \<and> cr_total_votes (vs_car resp) = 1"
    by fastforce
  from inst pre have second: "\<exists>resp1 s1 resp2 s2.
         vote_for_car (\<lambda>p. ''100.0'') ''c1'' vote_hot (store_of [fresh_ferrari]) = (Inr resp1, s1)
       \<and> tallies (vs_car resp1) = (1, 0, 1, 100)
       \<and> vote_for_car (\<lambda>p. ''100.0'') ''c1'' vote_not s1 = (Inr resp2, s2)
       \<and> tallies (vs_car resp2) = (1, 1, 2, 50)"
    by blast
  from first second show ?thesis by blast
qed

lemmas vote_eval = vote_for_car_def vote_for_car_try_def find_one_def update_one_def
  driver_call_def car_response_def store_of_def vote_hot_def voted_ferrari_def
  fresh_ferrari_def new_Car_def ferrari_def Let_def

text \<open>
  Claim C1 as stated fails. A car with 22 hot votes and 57 not votes receives a hot vote:
  the route stores and returns the percentage 28.7, and
  \<open>round(100 * new_hot_votes / new_total_votes, 1)\<close> is 28.8.
\<close>

theorem vote_for_car_percentage_counterexample:
  "vote_for_car (\<lambda>p. ''28.7'') ''c1'' vote_hot (store_of [voted_ferrari])
     = (Inr \<lparr>vs_success = True,
             vs_car = car_response voted_ferrari 23 57 80 (fl (287 / 10)),
             vs_message = ''Vote recorded! This car is 28.7% hot.''\<rparr>,
        \<lparr>cars = [voted_ferrari\<lparr>hot_votes := 23, not_votes := 57, total_votes := 80,
                                hot_percentage := fl (287 / 10)\<rparr>],
         faults = [], log = [FindOne ''c1'', UpdateOne ''c1'']\<rparr>)
   \<and> spec_hot_percentage 23 80 = fl (288 / 10)
   \<and> fl (287 / 10) \<noteq> fl (288 / 10)"
proof -
  have a: "py_round1 (py_mul (py_truediv 23 80) 100) = fl (287 / 10)"
    using code_23_80 by (simp only: code_hot_percentage_def)
  have c1: "vote_for_car (\<lambda>p. ''28.7'') ''c1'' vote_hot (store_of [voted_ferrari])
     = (Inr \<lparr>vs_success = True,
             vs_car = car_response voted_ferrari 23 57 80 (fl (287 / 10)),
             vs_message = ''Vote recorded! This car is 28.7% hot.''\<rparr>,
        \<lparr>cars = [voted_ferrari\<lparr>hot_votes := 23, not_votes := 57, total_votes := 80,
                                hot_percentage := fl (287 / 10)\<rparr>],
         faults = [], log = [FindOne ''c1'', UpdateOne ''c1'']\<rparr>)"
    by (simp add: vote_eval a)
  have c3: "fl (287 / 10) \<noteq> fl (288 / 10)"
    by (simp add: float_eval)
  from c1 spec_23_80 c3 show ?thesis by blast
qed


section \<open>The invariants of a car\<close>

text \<open>
  Claim C2 as stated fails on the same vote: the car satisfies the invariant with the
  percentage \<open>round(100 * hot_votes / total_votes, 1)\<close> before the vote and not after it.
\<close>

theorem spec_invariant_counterexample:
  "list_all spec_car_invariant (cars (store_of [voted_ferrari]))
   \<and> \<not> list_all spec_car_invariant
         (cars (snd (vote_for_car (\<lambda>p. ''28.7'') ''c1'' vote_hot (store_of [voted_ferrari]))))"
proof -
  have a: "py_round1 (py_mul (py_truediv 23 80) 100) = fl (287 / 10)"
    using code_23_80 by (simp only: code_hot_percentage_def)
  have c3: "fl (287 / 10) \<noteq> fl (288 / 10)"
    by (simp add: float_eval)
  have before: "spec_car_invariant voted_ferrari"
    by (simp add: spec_car_invariant_def voted_ferrari_def fresh_ferrari_def new_Car_def spec_22_79)
  have after: "cars (snd (vote_for_car (\<lambda>p. ''28.7'') ''c1'' vote_hot (store_of [voted_ferrari])))
      = [voted_ferrari\<lparr>hot_votes := 23, not_votes := 57, total_votes := 80,
                        hot_percentage := fl (287 / 10)\<rparr>]"
    by (simp add: vote_eval a)
  have "\<not> spec_car_invariant (voted_ferrari\<lparr>hot_votes := 23, not_votes := 57, total_votes := 80,
                        hot_percentage := fl (287 / 10)\<rparr>)"
    using c3 by (simp add: spec_car_invariant_def spec_23_80)
  with before after show ?thesis
    by (simp add: store_of_def)
qed

lemma list_all_update_first:
  "list_all Q xs \<Longrightarrow> (\<And>x. Q (f x)) \<Longrightarrow> list_all Q (update_first P f xs)"
  by (induction xs) auto

lemma car_invariant_new_Car: "car_invariant (new_Car uuid now car_data)"
  by (simp add: car_invariant_def new_Car_def)

lemma vote_for_car_invariant:
  assumes "list_all car_invariant (cars s)"
  shows "list_all car_invariant (cars (snd (vote_for_car float_str cid vote_request s)))"
  using assms
  by (cases "faults s")
    (auto simp: vote_for_car_def vote_for_car_try_def find_one_def update_one_def driver_call_def
      Let_def car_invariant_def code_hot_percentage_def
      split: option.splits list.splits intro!: list_all_update_first)

lemma create_car_invariant:
  assumes "list_all car_invariant (cars s)"
  shows "list_all car_invariant (cars (snd (create_car uuid now car_data s)))"
  using assms car_invariant_new_Car[of uuid now car_data]
  by (cases "faults s")
    (auto simp: create_car_def create_car_try_def insert_one_def driver_call_def Let_def
      split: option.splits)

lemma seeded_invariant:
  "list_all car_invariant (map (\<lambda>(i, car_data). new_Car (uuid i) (now i) car_data) xs)"
  by (induction xs) (auto simp: car_invariant_new_Car)

lemma initialize_cars_invariant:
  assumes "list_all car_invariant (cars s)"
  shows "list_all car_invariant (cars (snd (initialize_cars uuid now s)))"
  using assms seeded_invariant[of uuid now "enumerate 0 sample_cars"]
  by (cases "faults s")
    (auto simp: initialize_cars_def initialize_cars_try_def count_documents_def insert_many_def
      driver_call_def Let_def split: option.splits list.splits)


text \<open>
  Claim C2, amended. \<open>create_car\<close>, the seeding of \<open>initialize_cars\<close> and
  \<open>vote_for_car\<close> preserve, for every stored car, \<open>total_votes = hot_votes + not_votes\<close>,
  and \<open>hot_percentage = round(hot_votes / total_votes * 100, 1)\<close> (in float arithmetic,
  the quotient first) when the total is positive and \<open>0.0\<close> when it is 0, whatever the
  outcome of the call. A created car and every seeded car have the tallies
  \<open>(0, 0, 0, 0.0)\<close>, and the car a successful vote has written satisfies the invariant.
\<close>

theorem car_invariant_preserved:
  "(list_all car_invariant (cars s) \<longrightarrow>
      list_all car_invariant (cars (snd (create_car uuid now car_data s)))
    \<and> list_all car_invariant (cars (snd (initialize_cars uuids nows s)))
    \<and> list_all car_invariant (cars (snd (vote_for_car float_str cid vote_request s))))
   \<and> (create_car uuid now car_data s = (Inr created, s1) \<longrightarrow>
        tallies created = (0, 0, 0, 0)
      \<and> cars s1 = cars s @ [new_Car uuid now car_data]
      \<and> car_invariant (new_Car uuid now car_data)
      \<and> (hot_votes (new_Car uuid now car_data), not_votes (new_Car uuid now car_data),
          total_votes (new_Car uuid now car_data), hot_percentage (new_Car uuid now car_data))
           = (0, 0, 0, 0))
   \<and> (initialize_cars uuids nows s = (Inr res, s2) \<and> initialized res \<longrightarrow>
        (\<forall>c \<in> set (cars s2).
           car_invariant c
         \<and> (hot_votes c, not_votes c, total_votes c, hot_percentage c) = (0, 0, 0, 0)))
   \<and> (vote_for_car float_str cid vote_request s = (Inr resp, s3) \<longrightarrow>
        (\<exists>c. find (\<lambda>c. car_id c = cid) (cars s3) = Some c \<and> car_invariant c
           \<and> tallies (vs_car resp)
               = (hot_votes c, not_votes c, total_votes c, hot_percentage c)))"
proof (intro conjI impI)
  assume "list_all car_invariant (cars s)"
  then show "list_all car_invariant (cars (snd (create_car uuid now car_data s)))"
    by (rule create_car_invariant)
next
  assume "list_all car_invariant (cars s)"
  then show "list_all car_invariant (cars (snd (initialize_cars uuids nows s)))"
    by (rule initialize_cars_invariant)
next
  assume "list_all car_invariant (cars s)"
  then show "list_all car_invariant (cars (snd (vote_for_car float_str cid vote_request s)))"
    by (rule vote_for_car_invariant)
next
  assume "create_car uuid now car_data s = (Inr created, s1)"
  then show "tallies created = (0, 0, 0, 0)"
    by (cases "faults s")
      (auto simp: create_car_def create_car_try_def insert_one_def driver_call_def Let_def
        tallies_def car_response_def new_Car_def split: option.splits)
next
  assume "create_car uuid now car_data s = (Inr created, s1)"
  then show "cars s1 = cars s @ [new_Car uuid now car_data]"
    by (cases "faults s")
      (auto simp: create_car_def create_car_try_def insert_one_def driver_call_def Let_def
        split: option.splits)
next
  show "car_invariant (new_Car uuid now car_data)"
    by (rule car_invariant_new_Car)
next
  show "(hot_votes (new_Car uuid now car_data), not_votes (new_Car uuid now car_data),
          total_votes (new_Car uuid now car_data), hot_percentage (new_Car uuid now car_data))
           = (0, 0, 0, 0)"
    by (simp add: new_Car_def)
next
  assume a: "initialize_cars uuids nows s = (Inr res, s2) \<and> initialized res"
  have seeded: "\<forall>c \<in> set (map (\<lambda>(i, car_data). new_Car (uuids i) (nows i) car_data) xs).
      car_invariant c \<and> (hot_votes c, not_votes c, total_votes c, hot_percentage c) = (0, 0, 0, 0)"
    for xs
    by (auto simp: car_invariant_new_Car) (simp_all add: new_Car_def)
  from a have "cars s = [] \<and> cars s2 = map (\<lambda>(i, car_data). new_Car (uuids i) (nows i) car_data)
      (enumerate 0 sample_cars)"
    by (cases "faults s")
      (auto simp: initialize_cars_def initialize_cars_try_def count_documents_def insert_many_def
        driver_call_def Let_def split: option.splits list.splits if_splits)
  with seeded[of "enumerate 0 sample_cars"]
  show "\<forall>c \<in> set (cars s2).
           car_invariant c
         \<and> (hot_votes c, not_votes c, total_votes c, hot_percentage c) = (0, 0, 0, 0)"
    by simp
next
  assume a: "vote_for_car float_str cid vote_request s = (Inr resp, s3)"
  then obtain car where car: "find (\<lambda>c. car_id c = cid) (cars s) = Some car"
    and ok: "next_calls_succeed (Suc (Suc 0)) s"
    and vt: "vote_type vote_request = ''hot'' \<or> vote_type vote_request = ''not''"
    by (cases "faults s")
      (auto simp: vote_for_car_def vote_for_car_try_def find_one_def update_one_def driver_call_def
        Let_def next_calls_succeed_def split: option.splits list.splits if_splits)
  from vote_for_car_found[OF vt car ok, of float_str] a
  have st: "find (\<lambda>c. car_id c = cid) (cars s3)
               = Some (car\<lparr>hot_votes := cr_hot_votes (vs_car resp),
                          not_votes := cr_not_votes (vs_car resp),
                          total_votes := cr_total_votes (vs_car resp),
                          hot_percentage := cr_hot_percentage (vs_car resp)\<rparr>)"
    and t: "cr_total_votes (vs_car resp) = cr_hot_votes (vs_car resp) + cr_not_votes (vs_car resp)"
    and p: "cr_hot_percentage (vs_car resp)
               = (if 0 < cr_total_votes (vs_car resp)
                  then code_hot_percentage (cr_hot_votes (vs_car resp)) (cr_total_votes (vs_car resp))
                  else 0)"
    by auto
  have "car_invariant (car\<lparr>hot_votes := cr_hot_votes (vs_car resp),
                          not_votes := cr_not_votes (vs_car resp),
                          total_votes := cr_total_votes (vs_car resp),
                          hot_percentage := cr_hot_percentage (vs_car resp)\<rparr>)"
    using t p by (simp add: car_invariant_def)
  with st show "\<exists>c. find (\<lambda>c. car_id c = cid) (cars s3) = Some c \<and> car_invariant c
           \<and> tallies (vs_car resp)
               = (hot_votes c, not_votes c, total_votes c, hot_percentage c)"
    by (simp add: tallies_def)
qed


text \<open>The three operations on a store whose car satisfies the invariant.\<close>

theorem car_invariant_preserved_witness:
  "list_all car_invariant (cars (store_of [voted_ferrari]))
   \<and> list_all car_invariant (cars (snd (create_car ''c2'' 1 ferrari (store_of [voted_ferrari]))))
   \<and> list_all car_invariant
        (cars (snd (initialize_cars (\<lambda>i. str_nat i) (\<lambda>i. 1) (store_of [voted_ferrari]))))
   \<and> list_all car_invariant
        (cars (snd (vote_for_car (\<lambda>p. ''28.7'') ''c1'' vote_hot (store_of [voted_ferrari]))))"
proof -
  have "code_hot_percentage 22 79 = fl (278 / 10)"
    by (simp add: code_hot_percentage_def float_eval)
  then have pre: "list_all car_invariant (cars (store_of [voted_ferrari]))"
    by (simp add: store_of_def car_invariant_def voted_ferrari_def fresh_ferrari_def new_Car_def)
  with car_invariant_preserved[of "store_of [voted_ferrari]" "''c2''" 1 ferrari
      "\<lambda>i. str_nat i" "\<lambda>i. 1" "\<lambda>p. ''28.7''" "''c1''" vote_hot]
  show ?thesis by blast
qed

section \<open>Errors of the vote route\<close>

text \<open>
  Claim C3. A vote whose type is neither \<open>"hot"\<close> nor \<open>"not"\<close> fails with HTTP 400 and
  returns the store as it was: no document has changed and the log of driver calls has not
  grown, so the check precedes every access to the store.
\<close>

theorem vote_invalid_type:
  assumes "vote_type vote_request \<notin> {''hot'', ''not''}"
  shows "vote_for_car float_str cid vote_request s
           = (Inl (HTTPException 400
                (''Vote type must be '' @ apostrophe @ ''hot'' @ apostrophe @ '' or ''
                   @ apostrophe @ ''not'' @ apostrophe)), s)"
  using assms by (simp add: vote_for_car_def vote_for_car_try_def)

text \<open>A vote of type \<open>"maybe"\<close>.\<close>

theorem vote_invalid_type_witness:
  "vote_for_car (\<lambda>p. ''0.0'') ''c1'' \<lparr>vr_car_id = ''c1'', vote_type = ''maybe''\<rparr>
       (store_of [fresh_ferrari])
     = (Inl (HTTPException 400
          (''Vote type must be '' @ apostrophe @ ''hot'' @ apostrophe @ '' or ''
             @ apostrophe @ ''not'' @ apostrophe)),
        \<lparr>cars = [fresh_ferrari], faults = [], log = []\<rparr>)"
  using vote_invalid_type[of "\<lparr>vr_car_id = ''c1'', vote_type = ''maybe''\<rparr>" "\<lambda>p. ''0.0''" "''c1''"
      "store_of [fresh_ferrari]"]
  by (simp add: store_of_def)

text \<open>
  Claim C4. A vote of a valid type for an id that no stored car has fails with HTTP 404;
  the documents are unchanged and the only call of the driver is the lookup. The lookup
  itself is assumed not to fail.
\<close>

theorem vote_car_not_found:
  assumes "vote_type vote_request \<in> {''hot'', ''not''}"
    and "\<forall>c \<in> set (cars s). car_id c \<noteq> cid"
    and "next_calls_succeed 1 s"
  shows "\<exists>s'. vote_for_car float_str cid vote_request s
                = (Inl (HTTPException 404 ''Car not found''), s')
            \<and> cars s' = cars s \<and> log s' = log s @ [FindOne cid]"
proof -
  from assms(2) have none: "find (\<lambda>c. car_id c = cid) (cars s) = None"
    by (simp add: find_None_iff)
  from assms(3) have "next_calls_succeed (Suc 0) s" by simp
  from find_one_ok[OF this, of cid] none obtain s1 where
    "find_one cid s = (Inr None, s1)" "cars s1 = cars s" "log s1 = log s @ [FindOne cid]"
    by auto
  with assms(1) show ?thesis
    by (auto simp: vote_for_car_def vote_for_car_try_def)
qed

text \<open>A hot vote for the id \<open>c9\<close> on a store that holds the car \<open>c1\<close>.\<close>

theorem vote_car_not_found_witness:
  "\<exists>s'. vote_for_car (\<lambda>p. ''0.0'') ''c9'' \<lparr>vr_car_id = ''c9'', vote_type = ''hot''\<rparr>
            (store_of [fresh_ferrari])
          = (Inl (HTTPException 404 ''Car not found''), s')
       \<and> cars s' = [fresh_ferrari] \<and> log s' = [FindOne ''c9'']"
  using vote_car_not_found[of "\<lparr>vr_car_id = ''c9'', vote_type = ''hot''\<rparr>"
      "store_of [fresh_ferrari]" "''c9''" "\<lambda>p. ''0.0''"]
  by (simp add: store_of_def fresh_ferrari_def new_Car_def next_calls_succeed_def)

section \<open>A random car from an empty store\<close>

text \<open>
  Claim C5 asks for HTTP 404 on an empty store. The route raises that exception inside its
  \<open>try\<close>, and its \<open>except Exception\<close> turns it into HTTP 500: unlike \<open>vote_for_car\<close>,
  it has no \<open>except HTTPException: raise\<close> before.
\<close>

theorem get_random_car_empty_store:
  "get_random_car r \<lparr>cars = [], faults = [], log = []\<rparr>
     = (Inl (HTTPException 500 ''Failed to get random car''),
        \<lparr>cars = [], faults = [], log = [Aggregate]\<rparr>)"
  by (simp add: get_random_car_def get_random_car_try_def aggregate_sample_def driver_call_def)

section \<open>What a vote leaves alone\<close>

text \<open>
  Claim C9. A successful vote rewrites one document, which has the requested id: its four
  fields \<open>hot_votes\<close>, \<open>not_votes\<close>, \<open>total_votes\<close> and \<open>hot_percentage\<close> take the
  values of the response, its other fields are unchanged, and so is every other document.
\<close>

theorem vote_for_car_frame:
  assumes "vote_for_car float_str cid vote_request s = (Inr resp, s')"
  shows "\<exists>i. i < length (cars s) \<and> car_id (cars s ! i) = cid
           \<and> cars s' = (cars s)[i := (cars s ! i)
                \<lparr>hot_votes := cr_hot_votes (vs_car resp), not_votes := cr_not_votes (vs_car resp),
                 total_votes := cr_total_votes (vs_car resp),
                 hot_percentage := cr_hot_percentage (vs_car resp)\<rparr>]
           \<and> length (cars s') = length (cars s)
           \<and> (\<forall>j < length (cars s). j \<noteq> i \<longrightarrow> cars s' ! j = cars s ! j)
           \<and> car_id (cars s' ! i) = car_id (cars s ! i)
           \<and> car_make (cars s' ! i) = car_make (cars s ! i)
           \<and> model (cars s' ! i) = model (cars s ! i)
           \<and> year (cars s' ! i) = year (cars s ! i)
           \<and> image_url (cars s' ! i) = image_url (cars s ! i)
           \<and> created_at (cars s' ! i) = created_at (cars s ! i)"
proof -
  define h where "h = cr_hot_votes (vs_car resp)"
  define n where "n = cr_not_votes (vs_car resp)"
  define t where "t = cr_total_votes (vs_car resp)"
  define p where "p = cr_hot_percentage (vs_car resp)"
  define upd where "upd = (\<lambda>c::Car. c\<lparr>hot_votes := h, not_votes := n, total_votes := t,
                                    hot_percentage := p\<rparr>)"
  from assms obtain car where car: "find (\<lambda>c. car_id c = cid) (cars s) = Some car"
    and s': "cars s' = update_first (\<lambda>c. car_id c = cid) upd (cars s)"
    unfolding upd_def h_def n_def t_def p_def
    by (cases "faults s")
      (auto simp: vote_for_car_def vote_for_car_try_def find_one_def update_one_def driver_call_def
        Let_def car_response_def split: option.splits list.splits if_splits)
  from update_first_frame[OF car, of upd] obtain i where
    i: "i < length (cars s)" "cars s ! i = car"
       "update_first (\<lambda>c. car_id c = cid) upd (cars s) = (cars s)[i := upd car]"
    by blast
  from car have "car_id car = cid"
    by (auto simp: find_Some_iff)
  with i s' show ?thesis
    unfolding upd_def h_def n_def t_def p_def
    by (intro exI[of _ i]) simp
qed

text \<open>A hot vote for the second of two cars.\<close>

theorem vote_for_car_frame_witness:
  "vote_for_car (\<lambda>p. ''100.0'') ''c2'' vote_hot two_cars = (Inr second_car_response, two_cars_voted)
   \<and> (\<exists>i. i < length (cars two_cars) \<and> car_id (cars two_cars ! i) = ''c2''
           \<and> cars two_cars_voted = (cars two_cars)[i := (cars two_cars ! i)
                \<lparr>hot_votes := cr_hot_votes (vs_car second_car_response),
                 not_votes := cr_not_votes (vs_car second_car_response),
                 total_votes := cr_total_votes (vs_car second_car_response),
                 hot_percentage := cr_hot_percentage (vs_car second_car_response)\<rparr>]
           \<and> length (cars two_cars_voted) = length (cars two_cars)
           \<and> (\<forall>j < length (cars two_cars). j \<noteq> i \<longrightarrow> cars two_cars_voted ! j = cars two_cars ! j)
           \<and> car_id (cars two_cars_voted ! i) = car_id (cars two_cars ! i)
           \<and> car_make (cars two_cars_voted ! i) = car_make (cars two_cars ! i)
           \<and> model (cars two_cars_voted ! i) = model (cars two_cars ! i)
           \<and> year (cars two_cars_voted ! i) = year (cars two_cars ! i)
           \<and> image_url (cars two_cars_voted ! i) = image_url (cars two_cars ! i)
           \<and> created_at (cars two_cars_voted ! i) = created_at (cars two_cars ! i))"
proof -
  have p: "py_round1 (py_mul (py_truediv 1 1) 100) = 100"
    using code_hot_percentage_1_1 by (simp only: code_hot_percentage_def)
  have ev: "vote_for_car (\<lambda>p. ''100.0'') ''c2'' vote_hot two_cars
      = (Inr second_car_response, two_cars_voted)"
    by (simp add: vote_eval two_cars_def second_car_def second_car_response_def
        two_cars_voted_def p)
  show ?thesis
    by (rule conjI[OF ev vote_for_car_frame[OF ev]])
qed

section \<open>Seeding\<close>

lemma count_documents_ok:
  assumes "next_calls_succeed (Suc n) s"
  shows "\<exists>s'. count_documents s = (Inr (length (cars s)), s') \<and> cars s' = cars s
            \<and> next_calls_succeed n s'"
  using driver_call_ok[OF assms, of CountDocuments] by (auto simp: count_documents_def)

lemma insert_many_ok:
  assumes "next_calls_succeed (Suc n) s"
  shows "\<exists>s'. insert_many docs s = (Inr (length docs), s') \<and> cars s' = cars s @ docs
            \<and> next_calls_succeed n s'"
  using driver_call_ok[OF assms, of InsertMany]
  by (auto simp: insert_many_def next_calls_succeed_def)

lemma length_sample_cars: "length sample_cars = 12"
  by (simp add: sample_cars_def)

lemma initialize_cars_nonempty:
  assumes "cars s \<noteq> []" and "next_calls_succeed (Suc n) s"
  shows "\<exists>s'. initialize_cars uuid now s
             = (Inr \<lparr>ir_message = ''Database already has '' @ str_nat (length (cars s)) @ '' cars'',
                     initialized = False, car_count = None\<rparr>, s')
           \<and> cars s' = cars s \<and> next_calls_succeed n s'"
  using count_documents_ok[OF assms(2)] assms(1)
  by (auto simp: initialize_cars_def initialize_cars_try_def)

lemma initialize_cars_empty:
  assumes "cars s = []" and "next_calls_succeed (Suc (Suc n)) s"
  shows "\<exists>s'. initialize_cars uuid now s
             = (Inr \<lparr>ir_message = ''Successfully initialized '' @ str_nat 12 @ '' cars'',
                     initialized = True, car_count = Some 12\<rparr>, s')
           \<and> cars s' = map (\<lambda>(i, car_data). new_Car (uuid i) (now i) car_data)
                          (enumerate 0 sample_cars)
           \<and> next_calls_succeed n s'"
proof -
  from count_documents_ok[OF assms(2)] assms(1) obtain s1 where
    s1: "count_documents s = (Inr 0, s1)" "cars s1 = []" "next_calls_succeed (Suc n) s1"
    by auto
  from insert_many_ok[OF s1(3), of "map (\<lambda>(i, car_data). new_Car (uuid i) (now i) car_data)
        (enumerate 0 sample_cars)"] s1(2)
  obtain s2 where
    s2: "insert_many (map (\<lambda>(i, car_data). new_Car (uuid i) (now i) car_data)
            (enumerate 0 sample_cars)) s1 = (Inr 12, s2)"
        "cars s2 = map (\<lambda>(i, car_data). new_Car (uuid i) (now i) car_data)
            (enumerate 0 sample_cars)"
        "next_calls_succeed n s2"
    by (auto simp: length_sample_cars)
  from s1(1) s2 show ?thesis
    by (simp add: initialize_cars_def initialize_cars_try_def Let_def)
qed

text \<open>
  Claim C6. With a driver that does not fail: on a store that holds a car,
  \<open>initialize_cars\<close> inserts nothing and reports \<open>initialized = False\<close>; on an empty store
  it inserts the twelve sample cars and reports \<open>initialized = True\<close> with their count; and
  of two calls in a row the second one reports \<open>initialized = False\<close> and inserts nothing,
  so the sample data is inserted at most once.
\<close>

theorem initialize_cars_idempotent:
  "(cars s \<noteq> [] \<and> next_calls_succeed 1 s \<longrightarrow>
      (\<exists>res s'. initialize_cars uuid now s = (Inr res, s')
         \<and> \<not> initialized res \<and> car_count res = None \<and> cars s' = cars s))
   \<and> (cars s = [] \<and> next_calls_succeed 2 s \<longrightarrow>
      (\<exists>res s'. initialize_cars uuid now s = (Inr res, s')
         \<and> initialized res \<and> car_count res = Some (length sample_cars)
         \<and> map (\<lambda>c. (car_make c, model c, year c, image_url c)) (cars s')
             = map (\<lambda>d. (cc_make d, cc_model d, cc_year d, cc_image_url d)) sample_cars
         \<and> length (cars s') = 12))
   \<and> (next_calls_succeed 3 s \<longrightarrow>
      (\<exists>res1 s1 res2 s2.
           initialize_cars uuid now s = (Inr res1, s1)
         \<and> initialize_cars uuid' now' s1 = (Inr res2, s2)
         \<and> initialized res1 = (cars s = [])
         \<and> \<not> initialized res2 \<and> cars s2 = cars s1))"
proof (intro conjI impI)
  assume "cars s \<noteq> [] \<and> next_calls_succeed 1 s"
  then have "cars s \<noteq> []" "next_calls_succeed (Suc 0) s" by simp_all
  from initialize_cars_nonempty[OF this, of uuid now]
  show "\<exists>res s'. initialize_cars uuid now s = (Inr res, s')
         \<and> \<not> initialized res \<and> car_count res = None \<and> cars s' = cars s"
    by auto
next
  assume "cars s = [] \<and> next_calls_succeed 2 s"
  then have "cars s = []" "next_calls_succeed (Suc (Suc 0)) s"
    by (simp_all add: numeral_2_eq_2)
  from initialize_cars_empty[OF this, of uuid now] obtain s' where
    s': "initialize_cars uuid now s
             = (Inr \<lparr>ir_message = ''Successfully initialized '' @ str_nat 12 @ '' cars'',
                     initialized = True, car_count = Some 12\<rparr>, s')"
        "cars s' = map (\<lambda>(i, car_data). new_Car (uuid i) (now i) car_data)
                          (enumerate 0 sample_cars)"
    by blast
  have "map (\<lambda>c. (car_make c, model c, year c, image_url c))
          (map (\<lambda>(i, car_data). new_Car (uuid i) (now i) car_data) (enumerate k xs))
        = map (\<lambda>d. (cc_make d, cc_model d, cc_year d, cc_image_url d)) xs" for k xs
    by (induction xs arbitrary: k) (simp_all add: new_Car_def)
  with s' show "\<exists>res s'. initialize_cars uuid now s = (Inr res, s')
         \<and> initialized res \<and> car_count res = Some (length sample_cars)
         \<and> map (\<lambda>c. (car_make c, model c, year c, image_url c)) (cars s')
             = map (\<lambda>d. (cc_make d, cc_model d, cc_year d, cc_image_url d)) sample_cars
         \<and> length (cars s') = 12"
    by (simp add: length_sample_cars)
next
  assume "next_calls_succeed 3 s"
  then have ok: "next_calls_succeed (Suc (Suc (Suc 0))) s"
    by (simp add: numeral_3_eq_3)
  show "\<exists>res1 s1 res2 s2.
           initialize_cars uuid now s = (Inr res1, s1)
         \<and> initialize_cars uuid' now' s1 = (Inr res2, s2)
         \<and> initialized res1 = (cars s = [])
         \<and> \<not> initialized res2 \<and> cars s2 = cars s1"
  proof (cases "cars s = []")
    case True
    from initialize_cars_empty[OF True ok, of uuid now] obtain s1 where
      s1: "initialize_cars uuid now s
             = (Inr \<lparr>ir_message = ''Successfully initialized '' @ str_nat 12 @ '' cars'',
                     initialized = True, car_count = Some 12\<rparr>, s1)"
          "cars s1 = map (\<lambda>(i, car_data). new_Car (uuid i) (now i) car_data)
                          (enumerate 0 sample_cars)"
          "next_calls_succeed (Suc 0) s1"
      by blast
    from s1(2) have "cars s1 \<noteq> []"
      by (simp add: sample_cars_def)
    from initialize_cars_nonempty[OF this s1(3), of uuid' now'] s1(1) True
    show ?thesis by auto
  next
    case False
    from initialize_cars_nonempty[OF False ok, of uuid now] obtain s1 where
      s1: "initialize_cars uuid now s
             = (Inr \<lparr>ir_message = ''Database already has '' @ str_nat (length (cars s)) @ '' cars'',
                     initialized = False, car_count = None\<rparr>, s1)"
          "cars s1 = cars s" "next_calls_succeed (Suc (Suc 0)) s1"
      by blast
    from s1(2) False have "cars s1 \<noteq> []" by simp
    from initialize_cars_nonempty[OF this s1(3), of uuid' now'] s1(1) False
    show ?thesis by auto
  qed
qed

text \<open>Seeding a store that holds a car, and seeding an empty store twice.\<close>

theorem initialize_cars_idempotent_witness:
  "(\<exists>res s'. initialize_cars example_uuid example_now (store_of [fresh_ferrari]) = (Inr res, s')
         \<and> \<not> initialized res \<and> car_count res = None
         \<and> cars s' = cars (store_of [fresh_ferrari]))
   \<and> (\<exists>res s'. initialize_cars example_uuid example_now (store_of []) = (Inr res, s')
         \<and> initialized res \<and> car_count res = Some (length sample_cars)
         \<and> map (\<lambda>c. (car_make c, model c, year c, image_url c)) (cars s')
             = map (\<lambda>d. (cc_make d, cc_model d, cc_year d, cc_image_url d)) sample_cars
         \<and> length (cars s') = 12)
   \<and> (\<exists>res1 s1 res2 s2.
           initialize_cars example_uuid example_now (store_of []) = (Inr res1, s1)
         \<and> initialize_cars example_uuid example_now s1 = (Inr res2, s2)
         \<and> initialized res1 = (cars (store_of []) = [])
         \<and> \<not> initialized res2 \<and> cars s2 = cars s1)"
proof -
  have h1: "cars (store_of [fresh_ferrari]) \<noteq> [] \<and> next_calls_succeed 1 (store_of [fresh_ferrari])"
    by (simp add: store_of_def next_calls_succeed_def)
  have h2: "cars (store_of []) = [] \<and> next_calls_succeed 2 (store_of [])"
    by (simp add: store_of_def next_calls_succeed_def)
  have h3: "next_calls_succeed 3 (store_of [])"
    by (simp add: store_of_def next_calls_succeed_def)
  note a = initialize_cars_idempotent[where s = "store_of [fresh_ferrari]" and uuid = example_uuid
      and now = example_now and uuid' = example_uuid and now' = example_now]
  note b = initialize_cars_idempotent[where s = "store_of []" and uuid = example_uuid
      and now = example_now and uuid' = example_uuid and now' = example_now]
  show ?thesis
    by (intro conjI a[THEN conjunct1, THEN mp, OF h1]
        b[THEN conjunct2, THEN conjunct1, THEN mp, OF h2]
        b[THEN conjunct2, THEN conjunct2, THEN mp, OF h3])
qed

section \<open>Failures of the agents\<close>

lemma chat_with_agent_returns: "\<exists>resp g'. chat_with_agent env request g = (Inr resp, g')"
  by (cases "chat_with_agent_try env request g"; cases "fst (chat_with_agent_try env request g)")
    (auto simp: chat_with_agent_def)

lemma search_and_summarize_returns:
  "\<exists>resp g'. search_and_summarize env request g = (Inr resp, g')"
  by (cases "search_and_summarize_try env request g";
      cases "fst (search_and_summarize_try env request g)")
    (auto simp: search_and_summarize_def)

text \<open>
  The car routes and the driver. Whichever call of the driver fails during a car route,
  the route raises HTTP 500; the two routes that call the driver twice are also followed
  through a failure of the second call, which leaves the documents as they were.
\<close>

lemma get_random_car_driver_failed:
  assumes "driver_failed s (snd (get_random_car r s))"
  shows "fst (get_random_car r s) = Inl (HTTPException 500 ''Failed to get random car'')"
  using assms
  by (cases "faults s")
    (auto simp: driver_failed_def get_random_car_def get_random_car_try_def aggregate_sample_def
      driver_call_def split: option.splits list.splits)

lemma create_car_driver_failed:
  assumes "driver_failed s (snd (create_car uuid now car_data s))"
  shows "fst (create_car uuid now car_data s) = Inl (HTTPException 500 ''Failed to create car'')"
  using assms
  by (cases "faults s")
    (auto simp: driver_failed_def create_car_def create_car_try_def insert_one_def
      driver_call_def Let_def split: option.splits)

lemma initialize_cars_driver_failed:
  assumes "driver_failed s (snd (initialize_cars uuids nows s))"
  shows "fst (initialize_cars uuids nows s) = Inl (HTTPException 500 ''Failed to initialize cars'')"
  using assms
  by (cases "faults s")
    (auto simp: driver_failed_def initialize_cars_def initialize_cars_try_def count_documents_def
      insert_many_def driver_call_def Let_def split: option.splits list.splits if_splits)

lemma vote_for_car_driver_failed:
  assumes "driver_failed s (snd (vote_for_car float_str cid vote_request s))"
  shows "fst (vote_for_car float_str cid vote_request s)
           = Inl (HTTPException 500 ''Failed to record vote'')"
  using assms
  by (cases "faults s")
    (auto simp: driver_failed_def vote_for_car_def vote_for_car_try_def find_one_def
      update_one_def driver_call_def Let_def split: option.splits list.splits if_splits)

lemma vote_for_car_update_fails:
  assumes "faults s = None # Some m # fs"
    and "vote_type vote_request \<in> {''hot'', ''not''}"
    and "find (\<lambda>c. car_id c = cid) (cars s) = Some car"
  shows "vote_for_car float_str cid vote_request s
           = (Inl (HTTPException 500 ''Failed to record vote''),
              s\<lparr>faults := fs, log := log s @ [FindOne cid, UpdateOne cid]\<rparr>)"
  using assms
  by (auto simp: vote_for_car_def vote_for_car_try_def find_one_def update_one_def
      driver_call_def Let_def)

lemma initialize_cars_insert_fails:
  assumes "faults s = None # Some m # fs" and "cars s = []"
  shows "initialize_cars uuids nows s
           = (Inl (HTTPException 500 ''Failed to initialize cars''),
              s\<lparr>faults := fs, log := log s @ [CountDocuments, InsertMany]\<rparr>)"
  using assms
  by (simp add: initialize_cars_def initialize_cars_try_def count_documents_def insert_many_def
      driver_call_def Let_def)

text \<open>
  Claim C7. The chat route and the search route always return a response. When the
  construction of the agent or its execution raises, the response has \<open>success = False\<close>
  and carries the \<open>str()\<close> of the exception as \<open>error\<close>. The car routes answer a failure
  of the driver with HTTP 500, at whichever of their calls the driver fails.
\<close>

theorem agent_failures_contained:
  "(\<exists>resp g'. chat_with_agent env request g = (Inr resp, g'))
   \<and> (\<exists>resp g'. search_and_summarize env srequest g = (Inr resp, g'))
   \<and> (cq_agent_type request = ''search'' \<and> search_agent g = None \<and> SearchAgent env = Inl e \<longrightarrow>
        chat_with_agent env request g = (Inr (chat_failure request (str_exn env e)), g))
   \<and> (cq_agent_type request = ''chat'' \<and> chat_agent g = None \<and> ChatAgent env = Inl e \<longrightarrow>
        chat_with_agent env request g = (Inr (chat_failure request (str_exn env e)), g))
   \<and> (init_agents env request g = Inr g1 \<and> select_agent request g1 = Some agent
        \<and> execute agent (cq_message request) None = Inl e \<longrightarrow>
        chat_with_agent env request g = (Inr (chat_failure request (str_exn env e)), g1))
   \<and> (search_agent g = None \<and> SearchAgent env = Inl e \<longrightarrow>
        search_and_summarize env srequest g = (Inr (search_failure srequest (str_exn env e)), g))
   \<and> (init_search_agent env g = Inr (agent, g1)
        \<and> execute agent (search_prompt srequest) (Some True) = Inl e \<longrightarrow>
        search_and_summarize env srequest g = (Inr (search_failure srequest (str_exn env e)), g1))
   \<and> ch_success (chat_failure request msg) = False \<and> ch_error (chat_failure request msg) = Some msg
   \<and> sr_success (search_failure srequest msg :: 'a SearchResponse) = False
   \<and> sr_error (search_failure srequest msg :: 'a SearchResponse) = Some msg
   \<and> (faults s = Some m # fs \<longrightarrow>
        fst (get_random_car r s) = Inl (HTTPException 500 ''Failed to get random car'')
      \<and> fst (create_car uuid now car_data s) = Inl (HTTPException 500 ''Failed to create car'')
      \<and> fst (initialize_cars uuids nows s) = Inl (HTTPException 500 ''Failed to initialize cars'')
      \<and> (vote_type vote_request \<in> {''hot'', ''not''} \<longrightarrow>
           fst (vote_for_car float_str cid vote_request s)
             = Inl (HTTPException 500 ''Failed to record vote'')))
   \<and> (driver_failed s (snd (get_random_car r s)) \<longrightarrow>
        fst (get_random_car r s) = Inl (HTTPException 500 ''Failed to get random car''))
   \<and> (driver_failed s (snd (create_car uuid now car_data s)) \<longrightarrow>
        fst (create_car uuid now car_data s) = Inl (HTTPException 500 ''Failed to create car''))
   \<and> (driver_failed s (snd (initialize_cars uuids nows s)) \<longrightarrow>
        fst (initialize_cars uuids nows s) = Inl (HTTPException 500 ''Failed to initialize cars''))
   \<and> (driver_failed s (snd (vote_for_car float_str cid vote_request s)) \<longrightarrow>
        fst (vote_for_car float_str cid vote_request s)
          = Inl (HTTPException 500 ''Failed to record vote''))
   \<and> (faults s = None # Some m # fs \<and> vote_type vote_request \<in> {''hot'', ''not''}
        \<and> find (\<lambda>c. car_id c = cid) (cars s) = Some car \<longrightarrow>
        vote_for_car float_str cid vote_request s
          = (Inl (HTTPException 500 ''Failed to record vote''),
             s\<lparr>faults := fs, log := log s @ [FindOne cid, UpdateOne cid]\<rparr>))
   \<and> (faults s = None # Some m # fs \<and> cars s = [] \<longrightarrow>
        initialize_cars uuids nows s
          = (Inl (HTTPException 500 ''Failed to initialize cars''),
             s\<lparr>faults := fs, log := log s @ [CountDocuments, InsertMany]\<rparr>))"
proof (intro conjI impI)
  show "\<exists>resp g'. chat_with_agent env request g = (Inr resp, g')"
    by (rule chat_with_agent_returns)
  show "\<exists>resp g'. search_and_summarize env srequest g = (Inr resp, g')"
    by (rule search_and_summarize_returns)
  show "chat_with_agent env request g = (Inr (chat_failure request (str_exn env e)), g)"
    if "cq_agent_type request = ''search'' \<and> search_agent g = None \<and> SearchAgent env = Inl e"
    using that by (simp add: chat_with_agent_def chat_with_agent_try_def init_agents_def)
  show "chat_with_agent env request g = (Inr (chat_failure request (str_exn env e)), g)"
    if "cq_agent_type request = ''chat'' \<and> chat_agent g = None \<and> ChatAgent env = Inl e"
    using that by (simp add: chat_with_agent_def chat_with_agent_try_def init_agents_def)
  show "chat_with_agent env request g = (Inr (chat_failure request (str_exn env e)), g1)"
    if "init_agents env request g = Inr g1 \<and> select_agent request g1 = Some agent
        \<and> execute agent (cq_message request) None = Inl e"
    using that by (simp add: chat_with_agent_def chat_with_agent_try_def)
  show "search_and_summarize env srequest g = (Inr (search_failure srequest (str_exn env e)), g)"
    if "search_agent g = None \<and> SearchAgent env = Inl e"
    using that
    by (simp add: search_and_summarize_def search_and_summarize_try_def init_search_agent_def)
  show "search_and_summarize env srequest g = (Inr (search_failure srequest (str_exn env e)), g1)"
    if "init_search_agent env g = Inr (agent, g1)
        \<and> execute agent (search_prompt srequest) (Some True) = Inl e"
    using that by (simp add: search_and_summarize_def search_and_summarize_try_def)
  show "ch_success (chat_failure request msg) = False"
    by (simp add: chat_failure_def)
  show "ch_error (chat_failure request msg) = Some msg"
    by (simp add: chat_failure_def)
  show "sr_success (search_failure srequest msg :: 'a SearchResponse) = False"
    by (simp add: search_failure_def)
  show "sr_error (search_failure srequest msg :: 'a SearchResponse) = Some msg"
    by (simp add: search_failure_def)
  show "fst (get_random_car r s) = Inl (HTTPException 500 ''Failed to get random car'')"
    if "faults s = Some m # fs"
    using that
    by (simp add: get_random_car_def get_random_car_try_def aggregate_sample_def driver_call_def)
  show "fst (create_car uuid now car_data s) = Inl (HTTPException 500 ''Failed to create car'')"
    if "faults s = Some m # fs"
    using that
    by (simp add: create_car_def create_car_try_def insert_one_def driver_call_def Let_def)
  show "fst (initialize_cars uuids nows s) = Inl (HTTPException 500 ''Failed to initialize cars'')"
    if "faults s = Some m # fs"
    using that
    by (simp add: initialize_cars_def initialize_cars_try_def count_documents_def driver_call_def)
  show "fst (vote_for_car float_str cid vote_request s)
             = Inl (HTTPException 500 ''Failed to record vote'')"
    if "faults s = Some m # fs" and "vote_type vote_request \<in> {''hot'', ''not''}"
    using that
    by (auto simp: vote_for_car_def vote_for_car_try_def find_one_def driver_call_def)
  show "fst (get_random_car r s) = Inl (HTTPException 500 ''Failed to get random car'')"
    if "driver_failed s (snd (get_random_car r s))"
    using that by (rule get_random_car_driver_failed)
  show "fst (create_car uuid now car_data s) = Inl (HTTPException 500 ''Failed to create car'')"
    if "driver_failed s (snd (create_car uuid now car_data s))"
    using that by (rule create_car_driver_failed)
  show "fst (initialize_cars uuids nows s) = Inl (HTTPException 500 ''Failed to initialize cars'')"
    if "driver_failed s (snd (initialize_cars uuids nows s))"
    using that by (rule initialize_cars_driver_failed)
  show "fst (vote_for_car float_str cid vote_request s)
          = Inl (HTTPException 500 ''Failed to record vote'')"
    if "driver_failed s (snd (vote_for_car float_str cid vote_request s))"
    using that by (rule vote_for_car_driver_failed)
  show "vote_for_car float_str cid vote_request s
          = (Inl (HTTPException 500 ''Failed to record vote''),
             s\<lparr>faults := fs, log := log s @ [FindOne cid, UpdateOne cid]\<rparr>)"
    if "faults s = None # Some m # fs \<and> vote_type vote_request \<in> {''hot'', ''not''}
        \<and> find (\<lambda>c. car_id c = cid) (cars s) = Some car"
    using that vote_for_car_update_fails[of s m fs vote_request cid car float_str] by blast
  show "initialize_cars uuids nows s
          = (Inl (HTTPException 500 ''Failed to initialize cars''),
             s\<lparr>faults := fs, log := log s @ [CountDocuments, InsertMany]\<rparr>)"
    if "faults s = None # Some m # fs \<and> cars s = []"
    using that initialize_cars_insert_fails[of s m fs uuids nows] by blast
qed

text \<open>
  A search agent and a chat agent that cannot be constructed, an agent whose execution
  raises, a store whose driver fails at the first call, and stores whose driver fails at
  the second call: the update of a vote and the insertion of the sample cars.
\<close>

theorem agent_failures_contained_witness:
  "chat_with_agent example_env search_chat_request no_agents
     = (Inr (chat_failure search_chat_request ''missing API key''), no_agents)
   \<and> search_and_summarize example_env cars_query no_agents
       = (Inr (search_failure cars_query ''missing API key''), no_agents)
   \<and> chat_with_agent no_chat_env chat_request no_agents
       = (Inr (chat_failure chat_request ''missing API key''), no_agents)
   \<and> chat_with_agent example_env chat_request broken_agents
       = (Inr (chat_failure chat_request ''connection refused''), broken_agents)
   \<and> search_and_summarize example_env cars_query broken_agents
       = (Inr (search_failure cars_query ''connection refused''), broken_agents)
   \<and> fst (get_random_car 0 down_store) = Inl (HTTPException 500 ''Failed to get random car'')
   \<and> fst (create_car ''c2'' 0 ferrari down_store) = Inl (HTTPException 500 ''Failed to create car'')
   \<and> fst (initialize_cars example_uuid example_now down_store)
       = Inl (HTTPException 500 ''Failed to initialize cars'')
   \<and> fst (vote_for_car (\<lambda>p. ''0.0'') ''c1'' vote_hot down_store)
       = Inl (HTTPException 500 ''Failed to record vote'')
   \<and> fst (get_random_car 1 down_store) = Inl (HTTPException 500 ''Failed to get random car'')
   \<and> fst (create_car ''c3'' 0 ferrari down_store) = Inl (HTTPException 500 ''Failed to create car'')
   \<and> fst (initialize_cars example_uuid example_now flaky_empty_store)
       = Inl (HTTPException 500 ''Failed to initialize cars'')
   \<and> fst (vote_for_car (\<lambda>p. ''0.0'') ''c1'' vote_hot flaky_store)
       = Inl (HTTPException 500 ''Failed to record vote'')
   \<and> vote_for_car (\<lambda>p. ''0.0'') ''c1'' vote_not flaky_store
       = (Inl (HTTPException 500 ''Failed to record vote''),
          flaky_store\<lparr>faults := [], log := log flaky_store @ [FindOne ''c1'', UpdateOne ''c1'']\<rparr>)
   \<and> initialize_cars example_uuid example_now flaky_empty_store
       = (Inl (HTTPException 500 ''Failed to initialize cars''),
          flaky_empty_store\<lparr>faults := [],
            log := log flaky_empty_store @ [CountDocuments, InsertMany]\<rparr>)"
proof -
  note i1 = agent_failures_contained[where env = example_env and request = search_chat_request
      and g = no_agents and e = "PyException ''missing API key''" and srequest = cars_query]
  have h1: "cq_agent_type search_chat_request = ''search'' \<and> search_agent no_agents = None
      \<and> SearchAgent example_env = Inl (PyException ''missing API key'')"
    by (simp add: search_chat_request_def no_agents_def example_env_def)
  have h1': "search_agent no_agents = None
      \<and> SearchAgent example_env = Inl (PyException ''missing API key'')"
    by (simp add: no_agents_def example_env_def)
  from i1[THEN conjunct2, THEN conjunct2, THEN conjunct1, THEN mp, OF h1]
  have c1: "chat_with_agent example_env search_chat_request no_agents
     = (Inr (chat_failure search_chat_request ''missing API key''), no_agents)"
    by simp
  from i1[THEN conjunct2, THEN conjunct2, THEN conjunct2, THEN conjunct2, THEN conjunct2, THEN conjunct1, THEN mp, OF h1']
  have c2: "search_and_summarize example_env cars_query no_agents
     = (Inr (search_failure cars_query ''missing API key''), no_agents)"
    by simp
  note i2 = agent_failures_contained[where env = no_chat_env and request = chat_request
      and g = no_agents and e = "PyException ''missing API key''"]
  have h2: "cq_agent_type chat_request = ''chat'' \<and> chat_agent no_agents = None
      \<and> ChatAgent no_chat_env = Inl (PyException ''missing API key'')"
    by (simp add: chat_request_def no_agents_def no_chat_env_def)
  from i2[THEN conjunct2, THEN conjunct2, THEN conjunct2, THEN conjunct1, THEN mp, OF h2]
  have c3: "chat_with_agent no_chat_env chat_request no_agents
     = (Inr (chat_failure chat_request ''missing API key''), no_agents)"
    by simp
  note i3 = agent_failures_contained[where env = example_env and request = chat_request
      and g = broken_agents and ?g1.0 = broken_agents and agent = broken_agent
      and e = "PyException ''connection refused''" and srequest = cars_query]
  have h3: "init_agents example_env chat_request broken_agents = Inr broken_agents
      \<and> select_agent chat_request broken_agents = Some broken_agent
      \<and> execute broken_agent (cq_message chat_request) None = Inl (PyException ''connection refused'')"
    by (simp add: init_agents_def select_agent_def chat_request_def broken_agents_def
        broken_agent_def)
  have h4: "init_search_agent example_env broken_agents = Inr (broken_agent, broken_agents)
      \<and> execute broken_agent (search_prompt cars_query) (Some True)
          = Inl (PyException ''connection refused'')"
    by (simp add: init_search_agent_def broken_agents_def broken_agent_def)
  from i3[THEN conjunct2, THEN conjunct2, THEN conjunct2, THEN conjunct2, THEN conjunct1, THEN mp, OF h3]
  have c4: "chat_with_agent example_env chat_request broken_agents
     = (Inr (chat_failure chat_request ''connection refused''), broken_agents)"
    by simp
  from i3[THEN conjunct2, THEN conjunct2, THEN conjunct2, THEN conjunct2, THEN conjunct2, THEN conjunct2, THEN conjunct1, THEN mp, OF h4]
  have c5: "search_and_summarize example_env cars_query broken_agents
     = (Inr (search_failure cars_query ''connection refused''), broken_agents)"
    by simp
  note i4 = agent_failures_contained[where s = down_store and m = "''connection lost''"
      and fs = "[]" and r = 0 and uuid = "''c2''" and now = 0 and car_data = ferrari
      and uuids = example_uuid and nows = example_now and vote_request = vote_hot
      and float_str = "\<lambda>p. ''0.0''" and cid = "''c1''"]
  have h5: "faults down_store = [Some ''connection lost'']"
    by (simp add: down_store_def)
  have h6: "vote_type vote_hot \<in> {''hot'', ''not''}"
    by (simp add: vote_hot_def)
  note first = i4[THEN conjunct2, THEN conjunct2, THEN conjunct2, THEN conjunct2, THEN conjunct2, THEN conjunct2, THEN conjunct2, THEN conjunct2, THEN conjunct2, THEN conjunct2, THEN conjunct2, THEN conjunct1, THEN mp, OF h5]
  note c6a = first[THEN conjunct1]
  note c6b = first[THEN conjunct2, THEN conjunct1]
  note c6c = first[THEN conjunct2, THEN conjunct2, THEN conjunct1]
  note c6d = first[THEN conjunct2, THEN conjunct2, THEN conjunct2, THEN mp, OF h6]
  have h7: "driver_failed down_store (snd (get_random_car 1 down_store))"
    by (simp add: driver_failed_def down_store_def get_random_car_def get_random_car_try_def
        aggregate_sample_def driver_call_def)
  have h8: "driver_failed down_store (snd (create_car ''c3'' 0 ferrari down_store))"
    by (simp add: driver_failed_def down_store_def create_car_def create_car_try_def
        insert_one_def driver_call_def Let_def)
  note i5 = agent_failures_contained[where s = down_store and r = 1 and uuid = "''c3''"
      and now = 0 and car_data = ferrari]
  note c7 = i5[THEN conjunct2, THEN conjunct2, THEN conjunct2, THEN conjunct2, THEN conjunct2, THEN conjunct2, THEN conjunct2, THEN conjunct2, THEN conjunct2, THEN conjunct2, THEN conjunct2, THEN conjunct2, THEN conjunct1, THEN mp, OF h7]
  note c8 = i5[THEN conjunct2, THEN conjunct2, THEN conjunct2, THEN conjunct2, THEN conjunct2, THEN conjunct2, THEN conjunct2, THEN conjunct2, THEN conjunct2, THEN conjunct2, THEN conjunct2, THEN conjunct2, THEN conjunct2, THEN conjunct1, THEN mp, OF h8]
  have h9: "driver_failed flaky_empty_store
      (snd (initialize_cars example_uuid example_now flaky_empty_store))"
    by (simp add: driver_failed_def flaky_empty_store_def initialize_cars_def
        initialize_cars_try_def count_documents_def insert_many_def driver_call_def Let_def)
  have h10: "faults flaky_empty_store = None # Some ''connection lost'' # []
      \<and> cars flaky_empty_store = []"
    by (simp add: flaky_empty_store_def)
  note i6 = agent_failures_contained[where s = flaky_empty_store and uuids = example_uuid
      and nows = example_now and m = "''connection lost''" and fs = "[]"]
  note c9 = i6[THEN conjunct2, THEN conjunct2, THEN conjunct2, THEN conjunct2, THEN conjunct2, THEN conjunct2, THEN conjunct2, THEN conjunct2, THEN conjunct2, THEN conjunct2, THEN conjunct2, THEN conjunct2, THEN conjunct2, THEN conjunct2, THEN conjunct1, THEN mp, OF h9]
  note c10 = i6[THEN conjunct2, THEN conjunct2, THEN conjunct2, THEN conjunct2, THEN conjunct2, THEN conjunct2, THEN conjunct2, THEN conjunct2, THEN conjunct2, THEN conjunct2, THEN conjunct2, THEN conjunct2, THEN conjunct2, THEN conjunct2, THEN conjunct2, THEN conjunct2, THEN conjunct2, THEN mp, OF h10]
  have h11: "driver_failed flaky_store (snd (vote_for_car (\<lambda>p. ''0.0'') ''c1'' vote_hot flaky_store))"
    by (simp add: driver_failed_def flaky_store_def vote_hot_def vote_for_car_def
        vote_for_car_try_def find_one_def update_one_def driver_call_def Let_def
        fresh_ferrari_def new_Car_def)
  note i7 = agent_failures_contained[where s = flaky_store and float_str = "\<lambda>p. ''0.0''"
      and cid = "''c1''" and vote_request = vote_hot]
  note c11 = i7[THEN conjunct2, THEN conjunct2, THEN conjunct2, THEN conjunct2, THEN conjunct2, THEN conjunct2, THEN conjunct2, THEN conjunct2, THEN conjunct2, THEN conjunct2, THEN conjunct2, THEN conjunct2, THEN conjunct2, THEN conjunct2, THEN conjunct2, THEN conjunct1, THEN mp, OF h11]
  have h12: "faults flaky_store = None # Some ''connection lost'' # []
      \<and> vote_type vote_not \<in> {''hot'', ''not''}
      \<and> find (\<lambda>c. car_id c = ''c1'') (cars flaky_store) = Some fresh_ferrari"
    by (simp add: flaky_store_def vote_not_def fresh_ferrari_def new_Car_def)
  note i8 = agent_failures_contained[where s = flaky_store and float_str = "\<lambda>p. ''0.0''"
      and cid = "''c1''" and vote_request = vote_not and m = "''connection lost''"
      and fs = "[]" and car = fresh_ferrari]
  note c12 = i8[THEN conjunct2, THEN conjunct2, THEN conjunct2, THEN conjunct2, THEN conjunct2, THEN conjunct2, THEN conjunct2, THEN conjunct2, THEN conjunct2, THEN conjunct2, THEN conjunct2, THEN conjunct2, THEN conjunct2, THEN conjunct2, THEN conjunct2, THEN conjunct2, THEN conjunct1, THEN mp, OF h12]
  show ?thesis
    by (intro conjI c1 c2 c3 c4 c5 c6a c6b c6c c6d c7 c8 c9 c11 c12 c10)
qed

section \<open>An unrecognized agent type\<close>

text \<open>
  Claim C8 as stated fails. With no chat agent constructed so far, a request of type
  \<open>"bogus"\<close> constructs none (only the type \<open>"chat"\<close> does) although one could be
  constructed and would answer; the route finds the global \<open>None\<close>, raises, and returns a
  response with \<open>success = False\<close>.
\<close>

theorem chat_unrecognized_type_counterexample:
  "cq_agent_type bogus_request \<notin> {''search'', ''chat''}
   \<and> ChatAgent example_env = Inr echo_agent
   \<and> execute echo_agent (cq_message bogus_request) None
       = Inr \<lparr>success = True, content = ''hello'', metadata = Map.empty, error = None\<rparr>
   \<and> chat_with_agent example_env bogus_request no_agents
       = (Inr \<lparr>ch_success = False, ch_response = [], ch_agent_type = ''bogus'',
               ch_capabilities = [], ch_metadata = Map.empty,
               ch_error = Some ''500: Failed to initialize agent''\<rparr>,
          no_agents)"
  by (simp add: bogus_request_def example_env_def echo_agent_def no_agents_def
      chat_with_agent_def chat_with_agent_try_def init_agents_def select_agent_def
      chat_failure_def str_nat.simps)

text \<open>
  Claim C8, amended. A chat request whose type is neither \<open>"search"\<close> nor \<open>"chat"\<close>
  selects the chat agent instance. If that instance exists, the message is executed against
  it and its result is returned, with the requested type echoed. If no chat agent has been
  constructed, the route constructs none and returns a response with \<open>success = False\<close>
  whose error is the \<open>str()\<close> of \<open>HTTPException(500, "Failed to initialize agent")\<close>.
\<close>

theorem chat_unrecognized_type:
  "(cq_agent_type request \<notin> {''search'', ''chat''} \<and> chat_agent g = Some agent
      \<and> execute agent (cq_message request) None = Inr response
      \<and> get_capabilities agent = Inr caps \<longrightarrow>
      chat_with_agent env request g
        = (Inr \<lparr>ch_success = success response, ch_response = content response,
                ch_agent_type = cq_agent_type request, ch_capabilities = caps,
                ch_metadata = metadata response, ch_error = error response\<rparr>, g))
   \<and> (cq_agent_type request \<notin> {''search'', ''chat''} \<and> chat_agent g = None \<longrightarrow>
      chat_with_agent env request g
        = (Inr (chat_failure request (http_str env 500 ''Failed to initialize agent'')), g))"
  by (simp add: chat_with_agent_def chat_with_agent_try_def init_agents_def select_agent_def)

text \<open>The request of type \<open>"bogus"\<close> with and without a chat agent.\<close>

theorem chat_unrecognized_type_witness:
  "chat_with_agent example_env bogus_request chat_ready
     = (Inr \<lparr>ch_success = True, ch_response = ''hello'', ch_agent_type = ''bogus'',
             ch_capabilities = [''chat''], ch_metadata = Map.empty, ch_error = None\<rparr>,
        chat_ready)
   \<and> chat_with_agent example_env bogus_request no_agents
       = (Inr (chat_failure bogus_request (http_str example_env 500 ''Failed to initialize agent'')),
          no_agents)"
proof -
  note i1 = chat_unrecognized_type[where request = bogus_request and g = chat_ready
      and agent = echo_agent and env = example_env and caps = "[''chat'']"
      and response = "\<lparr>success = True, content = ''hello'', metadata = Map.empty, error = None\<rparr>"]
  have h1: "cq_agent_type bogus_request \<notin> {''search'', ''chat''}
      \<and> chat_agent chat_ready = Some echo_agent
      \<and> execute echo_agent (cq_message bogus_request) None
          = Inr \<lparr>success = True, content = ''hello'', metadata = Map.empty, error = None\<rparr>
      \<and> get_capabilities echo_agent = Inr [''chat'']"
    by (simp add: bogus_request_def chat_ready_def echo_agent_def)
  from i1[THEN conjunct1, THEN mp, OF h1]
  have c1: "chat_with_agent example_env bogus_request chat_ready
     = (Inr \<lparr>ch_success = True, ch_response = ''hello'', ch_agent_type = ''bogus'',
             ch_capabilities = [''chat''], ch_metadata = Map.empty, ch_error = None\<rparr>,
        chat_ready)"
    by (simp add: bogus_request_def)
  note i2 = chat_unrecognized_type[where request = bogus_request and g = no_agents
      and env = example_env]
  have h2: "cq_agent_type bogus_request \<notin> {''search'', ''chat''} \<and> chat_agent no_agents = None"
    by (simp add: bogus_request_def no_agents_def)
  note c2 = i2[THEN conjunct2, THEN mp, OF h2]
  from c1 c2 show ?thesis
    by (rule conjI)
qed

section \<open>The search route\<close>

text \<open>
  Claim C10. Every response of the search route carries the query of the request; a response
  with \<open>success = False\<close> has the empty summary and \<open>sources_count = 0\<close>, which is the
  case when the agent's result is unsuccessful and when an exception is caught.
\<close>

theorem search_echoes_query:
  "(\<exists>resp g'. search_and_summarize env request g = (Inr resp, g')
       \<and> sr_query resp = query request
       \<and> (\<not> sr_success resp \<longrightarrow> sr_summary resp = [] \<and> sr_sources_count resp = 0))
   \<and> (init_search_agent env g = Inr (agent, g1)
        \<and> execute agent (search_prompt request) (Some True) = Inr result \<and> \<not> success result \<longrightarrow>
        search_and_summarize env request g
          = (Inr \<lparr>sr_success = False, sr_query = query request, sr_summary = [],
                  sr_search_results = None, sr_sources_count = 0, sr_error = error result\<rparr>, g1))
   \<and> (search_and_summarize_try env request g = (Inl e, g2) \<longrightarrow>
        search_and_summarize env request g
          = (Inr \<lparr>sr_success = False, sr_query = query request, sr_summary = [],
                  sr_search_results = None, sr_sources_count = 0,
                  sr_error = Some (str_exn env e)\<rparr>, g2))"
proof (intro conjI impI)
  show "\<exists>resp g'. search_and_summarize env request g = (Inr resp, g')
       \<and> sr_query resp = query request
       \<and> (\<not> sr_success resp \<longrightarrow> sr_summary resp = [] \<and> sr_sources_count resp = 0)"
    by (auto simp: search_and_summarize_def search_and_summarize_try_def search_failure_def
        split: sum.splits prod.splits)
  show "search_and_summarize env request g
          = (Inr \<lparr>sr_success = False, sr_query = query request, sr_summary = [],
                  sr_search_results = None, sr_sources_count = 0, sr_error = error result\<rparr>, g1)"
    if "init_search_agent env g = Inr (agent, g1)
        \<and> execute agent (search_prompt request) (Some True) = Inr result \<and> \<not> success result"
    using that by (simp add: search_and_summarize_def search_and_summarize_try_def)
  show "search_and_summarize env request g
          = (Inr \<lparr>sr_success = False, sr_query = query request, sr_summary = [],
                  sr_search_results = None, sr_sources_count = 0,
                  sr_error = Some (str_exn env e)\<rparr>, g2)"
    if "search_and_summarize_try env request g = (Inl e, g2)"
    using that by (simp add: search_and_summarize_def search_failure_def)
qed

text \<open>An agent that reports failure, and a search agent that cannot be constructed.\<close>

theorem search_echoes_query_witness:
  "search_and_summarize example_env cars_query declining_agents
     = (Inr \<lparr>sr_success = False, sr_query = ''fast cars'', sr_summary = [],
             sr_search_results = None, sr_sources_count = 0, sr_error = Some ''rate limited''\<rparr>,
        declining_agents)
   \<and> search_and_summarize example_env cars_query no_agents
     = (Inr \<lparr>sr_success = False, sr_query = ''fast cars'', sr_summary = [],
             sr_search_results = None, sr_sources_count = 0,
             sr_error = Some ''missing API key''\<rparr>,
        no_agents)"
proof -
  note i1 = search_echoes_query[where env = example_env and request = cars_query
      and g = declining_agents and agent = declining_agent and ?g1.0 = declining_agents
      and result = "\<lparr>success = False, content = ''partial answer'', metadata = Map.empty,
                      error = Some ''rate limited''\<rparr>"]
  have h1: "init_search_agent example_env declining_agents = Inr (declining_agent, declining_agents)
      \<and> execute declining_agent (search_prompt cars_query) (Some True)
          = Inr \<lparr>success = False, content = ''partial answer'', metadata = Map.empty,
                 error = Some ''rate limited''\<rparr>
      \<and> \<not> success \<lparr>success = False, content = ''partial answer'', metadata = Map.empty,
                 error = Some ''rate limited''\<rparr>"
    by (simp add: init_search_agent_def declining_agents_def declining_agent_def)
  from i1[THEN conjunct2, THEN conjunct1, THEN mp, OF h1]
  have c1: "search_and_summarize example_env cars_query declining_agents
     = (Inr \<lparr>sr_success = False, sr_query = ''fast cars'', sr_summary = [],
             sr_search_results = None, sr_sources_count = 0, sr_error = Some ''rate limited''\<rparr>,
        declining_agents)"
    by (simp add: cars_query_def)
  note i2 = search_echoes_query[where env = example_env and request = cars_query
      and g = no_agents and e = "PyException ''missing API key''" and ?g2.0 = no_agents]
  have h2: "search_and_summarize_try example_env cars_query no_agents
      = (Inl (PyException ''missing API key''), no_agents)"
    by (simp add: search_and_summarize_try_def init_search_agent_def no_agents_def example_env_def)
  from i2[THEN conjunct2, THEN conjunct2, THEN mp, OF h2]
  have c2: "search_and_summarize example_env cars_query no_agents
     = (Inr \<lparr>sr_success = False, sr_query = ''fast cars'', sr_summary = [],
             sr_search_results = None, sr_sources_count = 0,
             sr_error = Some ''missing API key''\<rparr>,
        no_agents)"
    by (simp add: cars_query_def)
  from c1 c2 show ?thesis
    by (rule conjI)
qed

end
